theory Spec2Isabelle
  imports Complex_Main
begin

section \<open>Text: Python strings, substring tests and the regular expressions in use\<close>

text \<open>
  A Python \<open>str\<close> is modelled as a \<open>string\<close>. ASCII characters are themselves; a character
  beyond ASCII is carried as its UTF-8 bytes. Slicing, \<open>split\<close> and \<open>lower\<close> work on characters,
  not bytes. \<open>code_points\<close> cuts a text into its characters, each the list of its UTF-8 bytes:
  a byte \<open>10xxxxxx\<close> continues the character before it.
\<close>

definition is_continuation :: "char \<Rightarrow> bool" where
  "is_continuation c = ((of_char c :: nat) div 64 = 2)"

fun code_points :: "string \<Rightarrow> string list" where
  "code_points [] = []"
| "code_points (c # cs) =
     (case code_points cs of
        [] \<Rightarrow> [[c]]
      | [] # ps \<Rightarrow> [c] # ps
      | (d # ds) # ps \<Rightarrow>
          if is_continuation d then (c # d # ds) # ps else [c] # (d # ds) # ps)"

definition lower_char :: "char \<Rightarrow> char" where
  "lower_char c =
     (case map_of (zip ''ABCDEFGHIJKLMNOPQRSTUVWXYZ'' ''abcdefghijklmnopqrstuvwxyz'') c of
        None \<Rightarrow> c | Some l \<Rightarrow> l)"

definition upper_char :: "char \<Rightarrow> char" where
  "upper_char c =
     (case map_of (zip ''abcdefghijklmnopqrstuvwxyz'' ''ABCDEFGHIJKLMNOPQRSTUVWXYZ'') c of
        None \<Rightarrow> c | Some u \<Rightarrow> u)"

text \<open>
  \<open>s.lower()\<close>, character by character. \<open>A\<close>..\<open>Z\<close> go to \<open>a\<close>..\<open>z\<close>. Two characters beyond
  ASCII have a lower case with an ASCII letter in it: the capital I with a dot above (U+0130)
  becomes \<open>i\<close> followed by the combining dot (U+0307), and the Kelvin sign (U+212A) becomes
  \<open>k\<close>. Any other cased character beyond ASCII is replaced by \<open>str.lower()\<close> with one
  character beyond ASCII that is not white space; the model keeps it as it is. The program
  only searches lower-cased text for ASCII words and counts its characters and words, which
  the replacement leaves as they are.
\<close>

definition lower_point :: "string \<Rightarrow> string" where
  "lower_point p =
     (if p = [CHR 0xC4, CHR 0xB0] then [CHR ''i'', CHR 0xCC, CHR 0x87]
      else if p = [CHR 0xE2, CHR 0x84, CHR 0xAA] then ''k''
      else map lower_char p)"

definition lower :: "string \<Rightarrow> string" where
  "lower s = concat (map lower_point (code_points s))"

text \<open>\<open>s.startswith(p)\<close>.\<close>

fun startswith :: "string \<Rightarrow> string \<Rightarrow> bool" where
  "startswith s [] = True"
| "startswith [] (p # ps) = False"
| "startswith (c # cs) (p # ps) = (c = p \<and> startswith cs ps)"

text \<open>\<open>sub in s\<close> for two strings: \<open>contains s sub\<close>.\<close>

fun contains :: "string \<Rightarrow> string \<Rightarrow> bool" where
  "contains [] sub = (sub = [])"
| "contains (c # cs) sub = (startswith (c # cs) sub \<or> contains cs sub)"

text \<open>
  The patterns handed to \<open>re.search\<close> in this program are either plain words (no
  metacharacter) or two plain words joined by \<open>.*\<close>. \<open>Lit w\<close> is the first kind, \<open>Gap a b\<close> is
  \<open>a.*b\<close>. The dot of a Python regular expression matches any character except a newline.

  The texts searched are already lower-cased and the letters of the patterns are ASCII and
  lower-case. On such a text the \<open>re.IGNORECASE\<close> flag adds two matches: the letter \<open>i\<close> of
  a pattern also matches the dotless i (U+0131), and the letter \<open>s\<close> the long s (U+017F).
  \<open>ignore_case\<close> replaces these two characters of the text by \<open>i\<close> and \<open>s\<close>; the search is
  then for the pattern as written.
\<close>

definition fold_point :: "string \<Rightarrow> string" where
  "fold_point p =
     (if p = [CHR 0xC4, CHR 0xB1] then ''i''
      else if p = [CHR 0xC5, CHR 0xBF] then ''s''
      else p)"

definition ignore_case :: "string \<Rightarrow> string" where
  "ignore_case s = concat (map fold_point (code_points s))"

datatype pattern = Lit string | Gap string string

definition newline :: char where
  "newline = CHR 0x0A"

text \<open>\<open>dotstar_then s b\<close>: \<open>.*b\<close> matches at the start of \<open>s\<close>.\<close>

fun dotstar_then :: "string \<Rightarrow> string \<Rightarrow> bool" where
  "dotstar_then [] b = (b = [])"
| "dotstar_then (c # cs) b = (startswith (c # cs) b \<or> (c \<noteq> newline \<and> dotstar_then cs b))"

fun gap_search :: "string \<Rightarrow> string \<Rightarrow> string \<Rightarrow> bool" where
  "gap_search a b [] = (a = [] \<and> b = [])"
| "gap_search a b (c # cs) =
     ((startswith (c # cs) a \<and> dotstar_then (drop (length a) (c # cs)) b) \<or> gap_search a b cs)"

text \<open>\<open>re.search(pattern, text, re.IGNORECASE)\<close>, read as a truth value (a match object is
  true, \<open>None\<close> is false).\<close>

fun re_search :: "pattern \<Rightarrow> string \<Rightarrow> bool" where
  "re_search (Lit w) text = contains (ignore_case text) w"
| "re_search (Gap a b) text = gap_search a b (ignore_case text)"

text \<open>The truth value of a pattern string: the empty string is false.\<close>

fun pattern_given :: "pattern \<Rightarrow> bool" where
  "pattern_given (Lit w) = (w \<noteq> [])"
| "pattern_given (Gap a b) = True"

section \<open>Emails and the promotional pre-filter (triage.py)\<close>

text \<open>An email is a dictionary from field names to text; \<open>email.get(k, "")\<close> is \<open>get_field\<close>.\<close>

type_synonym email = "string \<rightharpoonup> string"

definition get_field :: "email \<Rightarrow> string \<Rightarrow> string" where
  "get_field email k = (case email k of None \<Rightarrow> [] | Some v \<Rightarrow> v)"

definition PROMOTIONAL_INDICATORS :: "(pattern \<times> pattern \<times> real) list" where
  "PROMOTIONAL_INDICATORS =
     [(Lit ''newsletter'', Lit ''unsubscribe'', 0.9),
      (Gap ''nvidia'' ''news'', Lit [], 0.8),
      (Lit ''weekly digest'', Lit [], 0.7),
      (Gap ''personalized'' ''for you'', Lit [], 0.7)]"

definition IMPORTANT_PATTERNS :: "pattern list" where
  "IMPORTANT_PATTERNS =
     [Lit ''assignment review'', Lit ''interview'', Lit ''job offer'',
      Lit ''meeting invitation'', Lit ''calendar invite'']"

definition time_markers :: "string list" where
  "time_markers = [''@'', ''at'', ''pm'', ''am'']"

text \<open>One turn of the loop over \<open>PROMOTIONAL_INDICATORS\<close>: does this indicator return \<open>True\<close>?\<close>

definition indicator_fires :: "string \<Rightarrow> string \<Rightarrow> pattern \<times> pattern \<times> real \<Rightarrow> bool" where
  "indicator_fires subject content ind =
     (case ind of (subject_pattern, content_pattern, confidence) \<Rightarrow>
        (let subject_match = (if pattern_given subject_pattern
                              then re_search subject_pattern subject else False);
             content_match = (if pattern_given content_pattern
                              then re_search content_pattern content else False)
         in (subject_match \<and> content_match \<and> confidence > 0.8)
            \<or> (subject_match \<and> confidence > 0.9)
            \<or> (content_match \<and> confidence > 0.9)))"

definition should_ignore_immediately :: "email \<Rightarrow> bool" where
  "should_ignore_immediately email =
     (let subject = lower (get_field email ''subject'');
          content = lower (get_field email ''page_content'')
      in if list_ex (\<lambda>p. re_search p subject \<or> re_search p content) IMPORTANT_PATTERNS
         then False
         else if (contains subject ''invitation'' \<or> contains subject ''invited''
                  \<or> contains subject ''calendar'')
                 \<and> list_ex (\<lambda>marker. contains subject marker) time_markers
         then False
         else list_ex (indicator_fires subject content) PROMOTIONAL_INDICATORS)"

section \<open>Exceptions, the outside world and the retry policy\<close>

text \<open>
  Every exception the modelled code raises or lets through is a value of \<open>exn\<close>, carrying its
  message. \<open>InternalServerError\<close> is the API client's error class; \<open>Exception\<close> stands for
  any other exception class.
\<close>

datatype exn =
    InternalServerError string
  | ValueError string
  | KeyError string
  | IndexError string
  | AttributeError string
  | TypeError string
  | Exception string

fun str_exn :: "exn \<Rightarrow> string" where
  "str_exn (InternalServerError m) = m"
| "str_exn (ValueError m) = m"
| "str_exn (KeyError k) = [CHR 0x27] @ k @ [CHR 0x27]"
| "str_exn (IndexError m) = m"
| "str_exn (AttributeError m) = m"
| "str_exn (TypeError m) = m"
| "str_exn (Exception m) = m"

text \<open>\<open>d[k]\<close> on a dictionary: a missing key raises \<open>KeyError\<close>.\<close>

definition lookup :: "(string \<rightharpoonup> 'v) \<Rightarrow> string \<Rightarrow> exn + 'v" where
  "lookup d k = (case d k of None \<Rightarrow> Inl (KeyError k) | Some v \<Rightarrow> Inr v)"

text \<open>
  An external operation (a call of the language model) is given by the outcome of each of its
  invocations: \<open>func n\<close> is what the invocation number \<open>n\<close> (from 0) returns or raises. The
  world records how many invocations were made and every \<open>asyncio.sleep\<close> duration, in order.
\<close>

type_synonym 'a operation = "nat \<Rightarrow> exn + 'a"

record world =
  calls :: nat
  slept :: "int list"

definition invoked :: "world \<Rightarrow> world" where
  "invoked w = w\<lparr>calls := calls w + 1\<rparr>"

definition sleep :: "int \<Rightarrow> world \<Rightarrow> world" where
  "sleep wait_time w = w\<lparr>slept := slept w @ [wait_time]\<rparr>"

text \<open>\<open>"overloaded_error" in str(e).lower()\<close>\<close>

definition is_overloaded :: "exn \<Rightarrow> bool" where
  "is_overloaded e = contains (lower (str_exn e)) ''overloaded_error''"

text \<open>
  \<open>retry_with_exponential_backoff\<close> of triage.py: the \<open>while True\<close> loop, entered with the
  current \<open>retries\<close>. Only an \<open>InternalServerError\<close> is caught; any other exception leaves the
  loop at once.
\<close>

function triage_retry_loop ::
  "'a operation \<Rightarrow> int \<Rightarrow> int \<Rightarrow> int \<Rightarrow> world \<Rightarrow> (exn + 'a) \<times> world" where
  "triage_retry_loop func max_retries delay retries w =
     (case func (calls w) of
        Inr v \<Rightarrow> (Inr v, invoked w)
      | Inl e \<Rightarrow>
          (case e of
             InternalServerError m \<Rightarrow>
               if is_overloaded e \<and> retries < max_retries
               then triage_retry_loop func max_retries delay (retries + 1)
                      (sleep (delay * 2 ^ nat ((retries + 1) - 1)) (invoked w))
               else (Inl e, invoked w)
           | _ \<Rightarrow> (Inl e, invoked w)))"
  by pat_completeness auto
termination
  by (relation "measure (\<lambda>(func, max_retries, delay, retries, w). nat (max_retries - retries))")
     auto

declare triage_retry_loop.simps [simp del]

definition triage_retry_with_exponential_backoff ::
  "'a operation \<Rightarrow> int \<Rightarrow> int \<Rightarrow> world \<Rightarrow> (exn + 'a) \<times> world" where
  "triage_retry_with_exponential_backoff func max_retries initial_delay w =
     triage_retry_loop func max_retries initial_delay 0 w"

text \<open>
  \<open>retry_with_exponential_backoff\<close> of draft_response.py: the same loop with a second handler,
  \<open>except Exception\<close>, which retries every other exception while retries remain. An
  \<open>InternalServerError\<close> that is not an overload is re-raised by the first handler.
\<close>

function draft_retry_loop ::
  "'a operation \<Rightarrow> int \<Rightarrow> int \<Rightarrow> int \<Rightarrow> world \<Rightarrow> (exn + 'a) \<times> world" where
  "draft_retry_loop func max_retries delay retries w =
     (case func (calls w) of
        Inr v \<Rightarrow> (Inr v, invoked w)
      | Inl e \<Rightarrow>
          (case e of
             InternalServerError m \<Rightarrow>
               if is_overloaded e \<and> retries < max_retries
               then draft_retry_loop func max_retries delay (retries + 1)
                      (sleep (delay * 2 ^ nat ((retries + 1) - 1)) (invoked w))
               else (Inl e, invoked w)
           | _ \<Rightarrow>
               if retries < max_retries
               then draft_retry_loop func max_retries delay (retries + 1)
                      (sleep (delay * 2 ^ nat ((retries + 1) - 1)) (invoked w))
               else (Inl e, invoked w)))"
  by pat_completeness auto
termination
  by (relation "measure (\<lambda>(func, max_retries, delay, retries, w). nat (max_retries - retries))")
     auto

declare draft_retry_loop.simps [simp del]

definition draft_retry_with_exponential_backoff ::
  "'a operation \<Rightarrow> int \<Rightarrow> int \<Rightarrow> world \<Rightarrow> (exn + 'a) \<times> world" where
  "draft_retry_with_exponential_backoff func max_retries initial_delay w =
     draft_retry_loop func max_retries initial_delay 0 w"

section \<open>Messages, the state record and partial updates\<close>

text \<open>The value of a tool-call argument: a text, a list of texts or a boolean.\<close>

datatype arg = Str string | StrList "string list" | Flag bool

text \<open>
  A tool call is a dictionary with the keys \<open>name\<close> and \<open>id\<close> and, where present, \<open>args\<close>.
  The drafting stage writes dictionaries with the key \<open>arguments\<close> in place of \<open>args\<close>, so
  both keys are fields, each present (\<open>Some\<close>) or absent (\<open>None\<close>). The tool calls of a
  message never have the key \<open>arguments\<close>: the constructor of the message refuses it (see
  \<open>default_draft\<close> below).
\<close>

record tool_call =
  call_name :: string
  call_args :: "(string \<rightharpoonup> arg) option"
  call_arguments :: "(string \<rightharpoonup> arg) option"
  call_id :: string

text \<open>
  The message classes. Every constructor starts with the message's \<open>id\<close> and, but for
  \<open>RemoveMessage\<close>, its \<open>content\<close>. Only an \<open>AIMessage\<close> has the attribute \<open>tool_calls\<close>.
  A message built by a stage and not yet merged into the state has no id, written as the
  empty text.
\<close>

datatype message =
    AIMessage string string "tool_call list"
  | HumanMessage string string
  | ToolMessage string string string
  | SystemMessage string string
  | RemoveMessage string

fun message_id :: "message \<Rightarrow> string" where
  "message_id (AIMessage i c tcs) = i"
| "message_id (HumanMessage i c) = i"
| "message_id (ToolMessage i c t) = i"
| "message_id (SystemMessage i c) = i"
| "message_id (RemoveMessage i) = i"

text \<open>\<open>m.tool_calls\<close> where \<open>hasattr(m, 'tool_calls')\<close>, and \<open>None\<close> where the attribute is
  missing.\<close>

fun tool_calls :: "message \<Rightarrow> tool_call list option" where
  "tool_calls (AIMessage i c tcs) = Some tcs"
| "tool_calls (HumanMessage i c) = None"
| "tool_calls (ToolMessage i c t) = None"
| "tool_calls (SystemMessage i c) = None"
| "tool_calls (RemoveMessage i) = None"

text \<open>\<open>isinstance(m, (ToolMessage, HumanMessage))\<close>\<close>

fun is_tool_or_human :: "message \<Rightarrow> bool" where
  "is_tool_or_human (HumanMessage i c) = True"
| "is_tool_or_human (ToolMessage i c t) = True"
| "is_tool_or_human (AIMessage i c tcs) = False"
| "is_tool_or_human (SystemMessage i c) = False"
| "is_tool_or_human (RemoveMessage i) = False"

record respond_to =
  logic :: string
  response :: string

text \<open>
  What is stored under \<open>triage\<close>: a \<open>RespondTo\<close> object, as the pre-filter path of the triage
  stage builds it, or the plain dictionary that the JSON parser at the end of the
  classification chain returns. The state is a typed dictionary, so the value is stored as it
  is returned.
\<close>

datatype decision = RespondTo respond_to | AnswerDict "string \<rightharpoonup> string"

text \<open>The state of a run. \<open>triage\<close> is \<open>None\<close> while no decision is recorded.\<close>

record state =
  email :: email
  messages :: "message list"
  triage :: "decision option"

text \<open>The dictionary a node returns: each key is present (\<open>Some\<close>) or absent (\<open>None\<close>).\<close>

record update =
  upd_email :: "email option"
  upd_triage :: "decision option"
  upd_messages :: "message list option"
  upd_draft :: "message option"

definition no_update :: update where
  "no_update = \<lparr>upd_email = None, upd_triage = None, upd_messages = None, upd_draft = None\<rparr>"

text \<open>\<open>get_config_async\<close> (config.py): all from \<open>configurable\<close> or all from the YAML file.\<close>

type_synonym config = "string \<rightharpoonup> string"

definition get_config_async :: "config \<Rightarrow> config \<Rightarrow> config" where
  "get_config_async configurable yaml_file =
     (if configurable ''email'' \<noteq> None then configurable else yaml_file)"

section \<open>The triage stage (triage.py)\<close>

text \<open>
  \<open>triage_input\<close>. The few-shot examples come from a collaborator outside the program, so
  their outcome is an argument; \<open>prompt_config\<close> is the result of \<open>get_config_async\<close>; \<open>llm\<close>
  is the classification chain \<open>llm | parser\<close>, whose \<open>JsonOutputParser\<close> returns the parsed
  JSON object as a dictionary. The prompt text itself is not modelled, only the dictionary
  reads made while formatting it, each of which raises \<open>KeyError\<close> on a missing key.
\<close>

definition triage_input ::
  "state \<Rightarrow> exn + string \<Rightarrow> config \<Rightarrow> (string \<rightharpoonup> string) operation \<Rightarrow> world
     \<Rightarrow> (exn + update) \<times> world"
where
  "triage_input s examples prompt_config llm w =
     (if should_ignore_immediately (email s)
      then (let resp = RespondTo
                         \<lparr>logic = ''This is clearly promotional content that can be safely ignored.'',
                          response = ''no''\<rparr>
            in if length (messages s) > 0
               then (Inr (no_update\<lparr>upd_triage := Some resp,
                            upd_messages := Some (map (\<lambda>m. RemoveMessage (message_id m)) (messages s))\<rparr>), w)
               else (Inr (no_update\<lparr>upd_triage := Some resp\<rparr>), w))
      else (case examples of
              Inl e \<Rightarrow> (Inl e, w)
            | Inr fewshotexamples \<Rightarrow>
               (case find (\<lambda>k. email s k = None) [''page_content'', ''from_email'', ''subject''] of
                  Some k \<Rightarrow> (Inl (KeyError k), w)
                | None \<Rightarrow>
                   (case find (\<lambda>k. prompt_config k = None)
                           [''name'', ''full_name'', ''background'',
                            ''triage_no'', ''triage_email'', ''triage_notify''] of
                      Some k \<Rightarrow> (Inl (KeyError k), w)
                    | None \<Rightarrow>
                       (case triage_retry_with_exponential_backoff llm 5 1 w of
                          (Inl e, w') \<Rightarrow> (Inl e, w')
                        | (Inr resp, w') \<Rightarrow>
                            if length (messages s) > 0
                            then (Inr (no_update\<lparr>upd_triage := Some (AnswerDict resp),
                                         upd_messages := Some (map (\<lambda>m. RemoveMessage (message_id m))
                                                                 (messages s))\<rparr>), w')
                            else (Inr (no_update\<lparr>upd_triage := Some (AnswerDict resp)\<rparr>),
                                  w'))))))"

section \<open>Routing (graph.py, gmail_agent_node.py)\<close>

definition gmail_keywords :: "string list" where
  "gmail_keywords =
     [''draft'', ''gmail'', ''email drafts'', ''save email'', ''prepare email'', ''write email'']"

definition should_use_gmail_agent :: "state \<Rightarrow> string" where
  "should_use_gmail_agent s =
     (case triage s of
        None \<Rightarrow> ''draft_response''
      | Some (AnswerDict d) \<Rightarrow> ''draft_response''
      | Some (RespondTo t) \<Rightarrow>
          if response t = ''email''
          then (let email_content = lower (get_field (email s) ''page_content'');
                    email_subject = lower (get_field (email s) ''subject'')
                in if list_ex (\<lambda>keyword. contains (lower email_content) keyword) gmail_keywords
                      \<or> list_ex (\<lambda>keyword. contains (lower email_subject) keyword) gmail_keywords
                   then ''gmail_agent_node''
                   else ''draft_response'')
          else ''draft_response'')"

definition career_terms :: "string list" where
  "career_terms = [''assignment'', ''interview'', ''review'', ''job'']"

text \<open>The message of the \<open>AttributeError\<close> for a missing attribute.\<close>

definition no_attribute :: "string \<Rightarrow> string \<Rightarrow> exn" where
  "no_attribute cls attr =
     AttributeError ([CHR 0x27] @ cls @ [CHR 0x27] @ '' object has no attribute ''
                     @ [CHR 0x27] @ attr @ [CHR 0x27])"

text \<open>\<open>state["triage"].response\<close>: only a \<open>RespondTo\<close> object has the attribute; reading it
  from \<open>None\<close> or from a dictionary raises.\<close>

definition triage_response :: "state \<Rightarrow> exn + string" where
  "triage_response s =
     (case triage s of
        None \<Rightarrow> Inl (no_attribute ''NoneType'' ''response'')
      | Some (AnswerDict d) \<Rightarrow> Inl (no_attribute ''dict'' ''response'')
      | Some (RespondTo t) \<Rightarrow> Inr (response t))"

definition route_after_triage :: "state \<Rightarrow> exn + string" where
  "route_after_triage s =
     (if should_ignore_immediately (email s) then Inr ''mark_as_read_node''
      else (let subject = lower (get_field (email s) ''subject'')
            in case triage_response s of
                 Inl e \<Rightarrow> Inl e
               | Inr r \<Rightarrow>
                   if r = ''email'' then Inr (should_use_gmail_agent s)
                   else if r = ''no'' then Inr ''mark_as_read_node''
                   else if r = ''notify''
                   then (if contains subject ''invitation''
                            \<and> list_ex (\<lambda>time_marker. contains subject time_marker) time_markers
                            \<and> list_ex (\<lambda>career_term. contains subject career_term) career_terms
                         then Inr ''draft_response''
                         else Inr ''notify'')
                   else if r = ''question'' then Inr ''draft_response''
                   else Inr ''mark_as_read_node''))"

text \<open>\<open>xs[-1]\<close>: the last element; an empty list raises \<open>IndexError\<close>.\<close>

definition last_item :: "'a list \<Rightarrow> exn + 'a" where
  "last_item xs = (if xs = [] then Inl (IndexError ''list index out of range'') else Inr (last xs))"

text \<open>The chain of comparisons on the first tool call's name in \<open>take_action\<close>.\<close>

definition action_for :: "string \<Rightarrow> string" where
  "action_for n =
     (if n = ''Question'' then ''send_message''
      else if n = ''ResponseEmailDraft'' then ''rewrite''
      else if n = ''Ignore'' then ''mark_as_read_node''
      else if n = ''MeetingAssistant'' then ''find_meeting_time''
      else if n = ''SendCalendarInvite'' then ''send_cal_invite''
      else ''bad_tool_name'')"

definition take_action :: "state \<Rightarrow> exn + string" where
  "take_action s =
     (case last_item (messages s) of
        Inl e \<Rightarrow> Inl e
      | Inr prediction \<Rightarrow>
          (case tool_calls prediction of
             None \<Rightarrow> Inr ''mark_as_read_node''
           | Some [] \<Rightarrow> Inr ''mark_as_read_node''
           | Some (tool_call # rest) \<Rightarrow> Inr (action_for (call_name tool_call))))"

text \<open>The chain of comparisons on the first tool call's name in \<open>enter_after_human\<close>.\<close>

definition execute_for :: "string \<Rightarrow> string" where
  "execute_for n =
     (if n = ''ResponseEmailDraft'' then ''send_email_node''
      else if n = ''SendCalendarInvite'' then ''send_cal_invite_node''
      else if n = ''Ignore'' then ''mark_as_read_node''
      else if n = ''Question'' then ''draft_response''
      else ''draft_response'')"

definition enter_after_human :: "state \<Rightarrow> exn + string" where
  "enter_after_human s =
     (if length (messages s) = 0
      then (case triage_response s of
              Inl e \<Rightarrow> Inl e
            | Inr r \<Rightarrow> if r = ''notify'' then Inr ''mark_as_read_node'' else Inr ''draft_response'')
      else if is_tool_or_human (last (messages s)) then Inr ''draft_response''
      else (case tool_calls (last (messages s)) of
              None \<Rightarrow> Inr ''draft_response''
            | Some [] \<Rightarrow> Inr ''draft_response''
            | Some (execute # rest) \<Rightarrow> Inr (execute_for (call_name execute))))"

text \<open>The sentinel \<open>END\<close> and the unconditional edges, in the order \<open>add_edge\<close> declares them
  (the entry edge to \<open>initialize\<close> apart).\<close>

definition END :: string where
  "END = ''__end__''"

definition edges :: "(string \<times> string) list" where
  "edges =
     [(''initialize'', ''triage_input''),
      (''gmail_agent_node'', ''human_node''),
      (''send_message'', ''human_node''),
      (''send_cal_invite'', ''human_node''),
      (''find_meeting_time'', ''human_node''),
      (''bad_tool_name'', ''draft_response''),
      (''send_cal_invite_node'', ''human_node''),
      (''send_email_node'', ''mark_as_read_node''),
      (''rewrite'', ''send_email_draft''),
      (''send_email_draft'', ''human_node''),
      (''mark_as_read_node'', END),
      (''notify'', ''human_node'')]"

text \<open>The successor of a node: its routing function on the state where the graph declares
  conditional edges, its unconditional edge otherwise. Every node of the graph has one or the
  other; a name with neither is an error.\<close>

definition successor :: "string \<Rightarrow> state \<Rightarrow> exn + string" where
  "successor node s =
     (if node = ''triage_input'' then route_after_triage s
      else if node = ''draft_response'' then take_action s
      else if node = ''human_node'' then enter_after_human s
      else (case map_of edges node of
              Some n \<Rightarrow> Inr n
            | None \<Rightarrow> Inl (ValueError node)))"

section \<open>The preference store\<close>

text \<open>
  The store maps a namespace (the one-element tuple holding the assistant's id) and a key to a
  value dictionary. \<open>aget\<close> returns the item or \<open>None\<close>; \<open>aput\<close> replaces the item.
\<close>

type_synonym store = "string \<times> string \<rightharpoonup> (string \<rightharpoonup> string)"

definition aget :: "store \<Rightarrow> string \<Rightarrow> string \<Rightarrow> (string \<rightharpoonup> string) option" where
  "aget st namespace key = st (namespace, key)"

definition aput :: "store \<Rightarrow> string \<Rightarrow> string \<Rightarrow> (string \<rightharpoonup> string) \<Rightarrow> store" where
  "aput st namespace key v = st((namespace, key) \<mapsto> v)"

text \<open>\<open>(config["configurable"].get("assistant_id", "default"),)\<close>\<close>

definition namespace_of :: "config \<Rightarrow> string" where
  "namespace_of configurable =
     (case configurable ''assistant_id'' of None \<Rightarrow> ''default'' | Some a \<Rightarrow> a)"

text \<open>
  The block both stages repeat for each preference key: read the item; if there is one and
  it has the key \<open>data\<close>, use that; otherwise write the configured default (the value of
  \<open>default_key\<close> in \<open>prompt_config\<close>, a \<open>KeyError\<close> if missing) and use it.
\<close>

definition read_preference ::
  "store \<Rightarrow> string \<Rightarrow> string \<Rightarrow> config \<Rightarrow> string \<Rightarrow> (exn + string) \<times> store" where
  "read_preference st namespace key prompt_config default_key =
     (let seeded = (case lookup prompt_config default_key of
                      Inl e \<Rightarrow> (Inl e, st)
                    | Inr d \<Rightarrow> (Inr d, aput st namespace key [''data'' \<mapsto> d]))
      in case aget st namespace key of
           None \<Rightarrow> seeded
         | Some v \<Rightarrow> (case v ''data'' of None \<Rightarrow> seeded | Some d \<Rightarrow> (Inr d, st)))"

section \<open>The drafting stage (draft_response.py)\<close>

definition personal_domains :: "string list" where
  "personal_domains = [''gmail.com'', ''yahoo.com'', ''outlook.com'', ''hotmail.com'', ''icloud.com'']"

definition personal_indicators :: "string list" where
  "personal_indicators = [''catch up'', ''how are you'', ''miss you'', ''coffee'', ''lunch'', ''friend'']"

text \<open>\<open>s[:n]\<close>, the first \<open>n\<close> characters.\<close>

definition slice_to :: "nat \<Rightarrow> string \<Rightarrow> string" where
  "slice_to n s = concat (take n (code_points s))"

text \<open>
  The characters \<open>str.split()\<close> treats as white space: U+0009 to U+000D, U+001C to U+0020,
  U+0085, U+00A0, U+1680, U+2000 to U+200A, U+2028, U+2029, U+202F, U+205F and U+3000.
\<close>

definition is_space :: "string \<Rightarrow> bool" where
  "is_space p =
     (p \<in> set [[CHR 0x09], [CHR 0x0A], [CHR 0x0B], [CHR 0x0C], [CHR 0x0D],
                [CHR 0x1C], [CHR 0x1D], [CHR 0x1E], [CHR 0x1F], [CHR 0x20],
                [CHR 0xC2, CHR 0x85], [CHR 0xC2, CHR 0xA0],
                [CHR 0xE1, CHR 0x9A, CHR 0x80],
                [CHR 0xE2, CHR 0x80, CHR 0x80], [CHR 0xE2, CHR 0x80, CHR 0x81],
                [CHR 0xE2, CHR 0x80, CHR 0x82], [CHR 0xE2, CHR 0x80, CHR 0x83],
                [CHR 0xE2, CHR 0x80, CHR 0x84], [CHR 0xE2, CHR 0x80, CHR 0x85],
                [CHR 0xE2, CHR 0x80, CHR 0x86], [CHR 0xE2, CHR 0x80, CHR 0x87],
                [CHR 0xE2, CHR 0x80, CHR 0x88], [CHR 0xE2, CHR 0x80, CHR 0x89],
                [CHR 0xE2, CHR 0x80, CHR 0x8A],
                [CHR 0xE2, CHR 0x80, CHR 0xA8], [CHR 0xE2, CHR 0x80, CHR 0xA9],
                [CHR 0xE2, CHR 0x80, CHR 0xAF], [CHR 0xE2, CHR 0x81, CHR 0x9F],
                [CHR 0xE3, CHR 0x80, CHR 0x80]])"

text \<open>\<open>len(s.split())\<close> on the characters of \<open>s\<close>: the number of maximal runs without white
  space; \<open>in_word\<close> tells whether the character before was part of a run.\<close>

fun count_words :: "bool \<Rightarrow> string list \<Rightarrow> nat" where
  "count_words in_word [] = 0"
| "count_words in_word (p # ps) =
     (if is_space p then count_words False ps
      else (if in_word then 0 else 1) + count_words True ps)"

definition is_personal_email :: "email \<Rightarrow> bool" where
  "is_personal_email mail =
     (let subject = lower (get_field mail ''subject'');
          content = lower (get_field mail ''page_content'');
          from_email = lower (get_field mail ''from_email'');
          is_from_personal_domain = list_ex (\<lambda>domain. contains from_email domain) personal_domains;
          has_personal_language =
            list_ex (\<lambda>indicator. contains content indicator \<or> contains subject indicator)
              personal_indicators;
          is_short_casual =
            (count_words False (code_points content) < 30
             \<and> list_ex (\<lambda>greeting. contains (slice_to 10 content) greeting)
                  [''hi'', ''hey'', ''hello''])
      in (is_from_personal_domain \<and> (has_personal_language \<or> is_short_casual))
         \<or> (has_personal_language \<and> is_short_casual))"

text \<open>\<open>s.capitalize()\<close>, on ASCII letters. It is applied to the sender's name in the text of
  the default reply only.\<close>

fun capitalize :: "string \<Rightarrow> string" where
  "capitalize [] = []"
| "capitalize (c # cs) = upper_char c # lower cs"

definition meetup_phrases :: "string list" where
  "meetup_phrases = [''meet'', ''catch up'', ''coffee'', ''lunch'', ''dinner'']"

definition generate_personal_response :: "config \<Rightarrow> email \<Rightarrow> exn + string" where
  "generate_personal_response prompt_config mail =
     (let sender_name =
            capitalize (takeWhile (\<lambda>c. c \<noteq> CHR ''.'')
                          (takeWhile (\<lambda>c. c \<noteq> CHR ''@'') (get_field mail ''from_email'')));
          content = lower (get_field mail ''page_content'')
      in if list_ex (\<lambda>phrase. contains content phrase) meetup_phrases
         then (case lookup prompt_config ''name'' of
                 Inl e \<Rightarrow> Inl e
               | Inr name \<Rightarrow>
                   Inr (''Hi '' @ sender_name @ '','' @ [newline, newline]
                        @ ''Great to hear from you! I'' @ [CHR 0x27] @ ''d love to catch up. ''
                        @ ''How about sometime next week? I'' @ [CHR 0x27]
                        @ ''m free on Tuesday afternoon or Thursday after 5.'' @ [newline, newline]
                        @ ''Let me know what works for you!'' @ [newline, newline]
                        @ ''Best,'' @ [newline] @ name))
         else (case lookup prompt_config ''name'' of
                 Inl e \<Rightarrow> Inl e
               | Inr name \<Rightarrow>
                   Inr (''Hi '' @ sender_name @ '','' @ [newline, newline]
                        @ ''Great to hear from you! Thanks for reaching out. Things have been busy ''
                        @ ''on my end with finishing up my degree and working on some exciting AI ''
                        @ ''projects.'' @ [newline, newline]
                        @ ''How have you been? What'' @ [CHR 0x27] @ ''s new in your world?''
                        @ [newline, newline]
                        @ ''Best,'' @ [newline] @ name)))"

text \<open>
  The default message both fallbacks try to build:
  \<open>AIMessage(content="", tool_calls=[{"name": ..., "arguments": ..., "id": ...}])\<close>. The
  message class builds each tool call from the dictionary's entries as keyword arguments
  and knows \<open>name\<close>, \<open>args\<close> and \<open>id\<close> only, so the key \<open>arguments\<close> makes the constructor
  raise \<open>TypeError\<close>, whatever the content and the id are.
\<close>

definition default_draft :: "string \<Rightarrow> string \<Rightarrow> exn + message" where
  "default_draft content tc_id =
     Inl (TypeError (''tool_call() got an unexpected keyword argument ''
                     @ [CHR 0x27] @ ''arguments'' @ [CHR 0x27]))"

text \<open>
  \<open>invoke_llm_with_retry\<close>, the operation handed to the retry policy: one invocation of the
  model, followed by the check of its tool calls. \<open>llm\<close> gives the outcome of each invocation of
  \<open>llm.ainvoke\<close>.
\<close>

definition invoke_llm_with_retry :: "config \<Rightarrow> email \<Rightarrow> message operation \<Rightarrow> message operation" where
  "invoke_llm_with_retry prompt_config mail llm n =
     (case llm n of
        Inl e \<Rightarrow> Inl e
      | Inr resp \<Rightarrow>
          (case tool_calls resp of
             None \<Rightarrow> Inl (AttributeError ''tool_calls'')
           | Some tcs \<Rightarrow>
               if tcs = []
               then (if is_personal_email mail
                     then (case generate_personal_response prompt_config mail of
                             Inl e \<Rightarrow> Inl e
                           | Inr content \<Rightarrow> default_draft content ''response_draft_tool_call'')
                     else Inl (ValueError ''LLM did not return a tool call.''))
               else Inr resp))"

text \<open>The three preference reads of \<open>draft_response\<close>, in the order of the source.\<close>

definition draft_preferences ::
  "config \<Rightarrow> config \<Rightarrow> store \<Rightarrow> (exn + string \<times> string \<times> string) \<times> store" where
  "draft_preferences configurable prompt_config st =
     (let namespace = namespace_of configurable
      in case read_preference st namespace ''schedule_preferences'' prompt_config
                ''schedule_preferences'' of
           (Inl e, st1) \<Rightarrow> (Inl e, st1)
         | (Inr schedule_preferences, st1) \<Rightarrow>
             (case read_preference st1 namespace ''random_preferences'' prompt_config
                     ''background_preferences'' of
                (Inl e, st2) \<Rightarrow> (Inl e, st2)
              | (Inr random_preferences, st2) \<Rightarrow>
                  (case read_preference st2 namespace ''response_preferences'' prompt_config
                          ''response_preferences'' of
                     (Inl e, st3) \<Rightarrow> (Inl e, st3)
                   | (Inr response_preferences, st3) \<Rightarrow>
                       (Inr (schedule_preferences, random_preferences, response_preferences), st3))))"

text \<open>
  The \<open>try\<close> statement that ends \<open>draft_response\<close>: the model is invoked under the retry
  policy with the defaults \<open>max_retries = 5\<close> and \<open>initial_delay = 1\<close>; any exception that
  leaves the policy is handled by the \<open>except Exception\<close> clause, which sets out to build the
  fallback draft for a personal email and raises \<open>ValueError\<close> for any other. An exception
  raised inside the clause leaves the stage.
\<close>

definition draft_result ::
  "config \<Rightarrow> email \<Rightarrow> message operation \<Rightarrow> world \<Rightarrow> (exn + message) \<times> world" where
  "draft_result prompt_config mail llm w =
     (case draft_retry_with_exponential_backoff
             (invoke_llm_with_retry prompt_config mail llm) 5 1 w of
        (Inr result, w') \<Rightarrow> (Inr result, w')
      | (Inl e, w') \<Rightarrow>
          if is_personal_email mail
          then (case generate_personal_response prompt_config mail of
                  Inl e' \<Rightarrow> (Inl e', w')
                | Inr content \<Rightarrow> (default_draft content ''response_draft_fallback'', w'))
          else (Inl (ValueError
                  (''Failed to get valid tool call from LLM after retries. Last error: ''
                   @ str_exn e)), w'))"

text \<open>
  \<open>draft_response\<close>. After the preferences are read the prompt is formatted (only the
  dictionary reads are modelled), then the \<open>try\<close> statement above runs and its result is
  returned as the draft and as the one new message.
\<close>

definition draft_response ::
  "state \<Rightarrow> config \<Rightarrow> config \<Rightarrow> store \<Rightarrow> message operation \<Rightarrow> world
     \<Rightarrow> (exn + update) \<times> store \<times> world" where
  "draft_response s configurable yaml_file st llm w =
     (let prompt_config = get_config_async configurable yaml_file
      in case draft_preferences configurable prompt_config st of
           (Inl e, st') \<Rightarrow> (Inl e, st', w)
         | (Inr prefs, st') \<Rightarrow>
            (case find (\<lambda>k. prompt_config k = None) [''name'', ''full_name'', ''background''] of
               Some k \<Rightarrow> (Inl (KeyError k), st', w)
             | None \<Rightarrow>
                (case find (\<lambda>k. email s k = None) [''page_content'', ''from_email'', ''subject''] of
                   Some k \<Rightarrow> (Inl (KeyError k), st', w)
                 | None \<Rightarrow>
                    (case draft_result prompt_config (email s) llm w of
                       (Inl e, w') \<Rightarrow> (Inl e, st', w')
                     | (Inr result, w') \<Rightarrow>
                         (Inr (no_update\<lparr>upd_draft := Some result, upd_messages := Some [result]\<rparr>),
                          st', w')))))"

section \<open>The rewrite stage (rewrite.py)\<close>

fun message_content :: "message \<Rightarrow> string" where
  "message_content (AIMessage i c tcs) = c"
| "message_content (HumanMessage i c) = c"
| "message_content (ToolMessage i c t) = c"
| "message_content (SystemMessage i c) = c"
| "message_content (RemoveMessage i) = []"

text \<open>\<open>m.tool_calls[0]\<close>: the attribute may be missing and the list may be empty.\<close>

definition first_tool_call :: "message \<Rightarrow> exn + tool_call" where
  "first_tool_call m =
     (case tool_calls m of
        None \<Rightarrow> Inl (AttributeError ''tool_calls'')
      | Some [] \<Rightarrow> Inl (IndexError ''list index out of range'')
      | Some (tc # rest) \<Rightarrow> Inr tc)"

text \<open>\<open>tc["args"]\<close>\<close>

definition args_of :: "tool_call \<Rightarrow> exn + (string \<rightharpoonup> arg)" where
  "args_of tc = (case call_args tc of None \<Rightarrow> Inl (KeyError ''args'') | Some a \<Rightarrow> Inr a)"

text \<open>The preference read of \<open>rewrite\<close>.\<close>

definition rewrite_instructions :: "config \<Rightarrow> config \<Rightarrow> store \<Rightarrow> (exn + string) \<times> store" where
  "rewrite_instructions configurable prompt_config st =
     read_preference st (namespace_of configurable) ''rewrite_instructions'' prompt_config
       ''rewrite_preferences''"

text \<open>
  \<open>rewrite\<close>. \<open>model_validate\<close> stands for \<open>ReWriteEmail.model_validate\<close> followed by the read
  of \<open>rewritten_content\<close>: the schema class is declared outside the files at hand, so the
  validation is an argument, returning the rewritten text or raising. \<open>llm\<close> is the model bound
  to the \<open>ReWriteEmail\<close> tool; it is invoked once, outside any retry policy.
\<close>

definition rewrite ::
  "state \<Rightarrow> config \<Rightarrow> config \<Rightarrow> store \<Rightarrow> message operation
     \<Rightarrow> ((string \<rightharpoonup> arg) \<Rightarrow> exn + string) \<Rightarrow> world \<Rightarrow> (exn + update) \<times> store \<times> world" where
  "rewrite s configurable yaml_file st llm model_validate w =
     (case last_item (messages s) of
        Inl e \<Rightarrow> (Inl e, st, w)
      | Inr prev_message \<Rightarrow>
     (case first_tool_call prev_message of
        Inl e \<Rightarrow> (Inl e, st, w)
      | Inr prev_call \<Rightarrow>
     (case args_of prev_call of
        Inl e \<Rightarrow> (Inl e, st, w)
      | Inr prev_args \<Rightarrow>
     (case lookup prev_args ''content'' of
        Inl e \<Rightarrow> (Inl e, st, w)
      | Inr draft \<Rightarrow>
     (let prompt_config = get_config_async configurable yaml_file
      in case rewrite_instructions configurable prompt_config st of
           (Inl e, st') \<Rightarrow> (Inl e, st', w)
         | (Inr instructions, st') \<Rightarrow>
     (case find (\<lambda>k. email s k = None)
             [''page_content'', ''from_email'', ''subject'', ''to_email''] of
        Some k \<Rightarrow> (Inl (KeyError k), st', w)
      | None \<Rightarrow>
     (case lookup prompt_config ''name'' of
        Inl e \<Rightarrow> (Inl e, st', w)
      | Inr name \<Rightarrow>
     (case llm (calls w) of
        Inl e \<Rightarrow> (Inl e, st', invoked w)
      | Inr resp \<Rightarrow>
     (case first_tool_call resp of
        Inl e \<Rightarrow> (Inl e, st', invoked w)
      | Inr tc \<Rightarrow>
     (case args_of tc of
        Inl e \<Rightarrow> (Inl e, st', invoked w)
      | Inr tc_args \<Rightarrow>
     (case model_validate tc_args of
        Inl e \<Rightarrow> (Inl e, st', invoked w)
      | Inr rewritten_content \<Rightarrow>
          (let new_calls = [\<lparr>call_name = call_name prev_call,
                             call_args = Some (prev_args(''content'' \<mapsto> Str rewritten_content)),
                             call_arguments = None,
                             call_id = call_id prev_call\<rparr>];
               new_message = AIMessage (message_id prev_message) (message_content prev_message)
                               new_calls
           in (Inr (no_update\<lparr>upd_messages := Some [new_message]\<rparr>), st', invoked w)))))))))))))"

section \<open>Concrete inputs\<close>

text \<open>The subject of the promotional scenario; the dash is the three bytes of U+2014.\<close>

definition promo_subject :: string where
  "promo_subject =
     ''Weekly NVIDIA news digest '' @ [CHR 0xE2, CHR 0x80, CHR 0x94] @ '' unsubscribe''"

definition promo_email :: email where
  "promo_email =
     [''subject'' \<mapsto> promo_subject,
      ''page_content'' \<mapsto> ''Click here to unsubscribe.'',
      ''from_email'' \<mapsto> ''news@nvidia.com'']"

text \<open>A complete configuration, as the YAML file supplies it.\<close>

definition sample_config :: config where
  "sample_config =
     [''name'' \<mapsto> ''Aryan'', ''full_name'' \<mapsto> ''Aryan G'', ''background'' \<mapsto> ''student'',
      ''triage_no'' \<mapsto> ''a'', ''triage_email'' \<mapsto> ''b'', ''triage_notify'' \<mapsto> ''c'',
      ''schedule_preferences'' \<mapsto> ''Mornings only'',
      ''background_preferences'' \<mapsto> ''Final-year student'',
      ''response_preferences'' \<mapsto> ''Be brief'',
      ''rewrite_preferences'' \<mapsto> ''Friendly tone'']"

text \<open>The \<open>configurable\<close> dictionary of a run: an assistant id and nothing else, so that
  \<open>get_config_async\<close> falls back to the file.\<close>

definition assistant_config :: config where
  "assistant_config = [''assistant_id'' \<mapsto> ''a1'']"

text \<open>The store after the drafting stage has seeded its three keys from \<open>sample_config\<close>.\<close>

definition seeded_store :: store where
  "seeded_store =
     aput (aput (aput Map.empty ''a1'' ''schedule_preferences'' [''data'' \<mapsto> ''Mornings only''])
             ''a1'' ''random_preferences'' [''data'' \<mapsto> ''Final-year student''])
       ''a1'' ''response_preferences'' [''data'' \<mapsto> ''Be brief'']"

definition world0 :: world where
  "world0 = \<lparr>calls = 0, slept = []\<rparr>"

text \<open>
  Vocabulary of the retry claims. An error is transient when the first handler of both
  retry loops retries it: an \<open>InternalServerError\<close> whose text mentions an overload. The
  drafting stage's loop also retries every exception of another class. \<open>backoff delay k\<close> is
  the list of the first \<open>k\<close> waiting times.
\<close>

fun transient :: "exn \<Rightarrow> bool" where
  "transient (InternalServerError m) = is_overloaded (InternalServerError m)"
| "transient e = False"

fun draft_retryable :: "exn \<Rightarrow> bool" where
  "draft_retryable (InternalServerError m) = is_overloaded (InternalServerError m)"
| "draft_retryable e = True"

definition backoff :: "int \<Rightarrow> nat \<Rightarrow> int list" where
  "backoff delay k = map (\<lambda>i. delay * 2 ^ i) [0..<k]"

text \<open>An operation that fails with an overload on its first \<open>k\<close> invocations, then returns 7.\<close>

definition flaky :: "nat \<Rightarrow> nat operation" where
  "flaky k n =
     (if n < k then Inl (InternalServerError ''Overloaded_Error: try later'') else Inr 7)"

text \<open>A tool call with the given name, as the drafting stage's model returns it.\<close>

definition draft_call :: "string \<Rightarrow> tool_call" where
  "draft_call n =
     \<lparr>call_name = n,
      call_args = Some [''content'' \<mapsto> Str ''Dear Sam, yes.'', ''new_recipients'' \<mapsto> StrList []],
      call_arguments = None,
      call_id = ''toolu_01''\<rparr>"

definition work_email :: email where
  "work_email =
     [''subject'' \<mapsto> ''Quarterly budget figures'',
      ''page_content'' \<mapsto> ''Please send the figures by Friday.'',
      ''from_email'' \<mapsto> ''cfo@example.com'',
      ''to_email'' \<mapsto> ''aryan@example.com'']"

definition newsletter_email :: email where
  "newsletter_email =
     [''subject'' \<mapsto> ''Our newsletter'',
      ''page_content'' \<mapsto> ''Click to unsubscribe.'',
      ''from_email'' \<mapsto> ''list@example.com'']"

text \<open>The test under which \<open>route_after_triage\<close> upgrades a notify decision, on the
  lower-cased subject.\<close>

definition upgrade_condition :: "string \<Rightarrow> bool" where
  "upgrade_condition subject =
     (contains subject ''invitation''
      \<and> list_ex (\<lambda>time_marker. contains subject time_marker) time_markers
      \<and> list_ex (\<lambda>career_term. contains subject career_term) career_terms)"

definition invitation_email :: email where
  "invitation_email =
     [''subject'' \<mapsto> ''Invitation: Job Fair @ 3pm'',
      ''page_content'' \<mapsto> ''Join us on Friday.'',
      ''from_email'' \<mapsto> ''careers@example.com'']"

text \<open>Answers of the classification chain, as the JSON parser returns them.\<close>

definition email_answer :: "string \<rightharpoonup> string" where
  "email_answer = [''logic'' \<mapsto> ''needs an answer'', ''response'' \<mapsto> ''email'']"

definition notify_answer :: "string \<rightharpoonup> string" where
  "notify_answer = [''logic'' \<mapsto> ''worth knowing'', ''response'' \<mapsto> ''notify'']"

text \<open>A state with two entries in its action log.\<close>

definition drafted_state :: state where
  "drafted_state =
     \<lparr>email = work_email,
      messages = [HumanMessage ''m1'' ''hello'', AIMessage ''m2'' [] [draft_call ''Question'']],
      triage = Some (RespondTo \<lparr>logic = ''needs an answer'', response = ''email''\<rparr>)\<rparr>"

definition personal_email :: email where
  "personal_email =
     [''subject'' \<mapsto> ''Coffee'',
      ''page_content'' \<mapsto> ''Hi! Want to grab coffee on Sunday?'',
      ''from_email'' \<mapsto> ''sam.lee@gmail.com'',
      ''to_email'' \<mapsto> ''aryan@example.com'']"

text \<open>A body that starts with two emoji (U+1F600, four bytes each): the greeting lies
  within its first ten characters, though not within its first ten bytes.\<close>

definition emoji_email :: email where
  "emoji_email =
     [''subject'' \<mapsto> ''Long time'',
      ''page_content'' \<mapsto>
        [CHR 0xF0, CHR 0x9F, CHR 0x98, CHR 0x80, CHR 0xF0, CHR 0x9F, CHR 0x98, CHR 0x80]
        @ '' hey there'',
      ''from_email'' \<mapsto> ''sam.lee@gmail.com'']"

text \<open>A model that answers without a tool call on its first \<open>k\<close> invocations and with a
  \<open>Question\<close> tool call afterwards.\<close>

definition silent_then_question :: "nat \<Rightarrow> message operation" where
  "silent_then_question k n =
     (if n < k then Inr (AIMessage [] ''I am not sure what to do.'' [])
      else Inr (AIMessage [] [] [draft_call ''Question'']))"

text \<open>The rewrite model's answer and an instance of the validation of its arguments: the
  field \<open>rewritten_content\<close> must be present and a text.\<close>

definition rewrite_llm :: "message operation" where
  "rewrite_llm n =
     Inr (AIMessage [] []
            [\<lparr>call_name = ''ReWriteEmail'',
              call_args = Some [''tone_logic'' \<mapsto> Str ''warmer'',
                                ''rewritten_content'' \<mapsto> Str ''Hi Sam, yes!''],
              call_arguments = None,
              call_id = ''toolu_02''\<rparr>])"

definition validate_rewritten :: "(string \<rightharpoonup> arg) \<Rightarrow> exn + string" where
  "validate_rewritten a =
     (case a ''rewritten_content'' of
        Some (Str t) \<Rightarrow> Inr t
      | _ \<Rightarrow> Inl (ValueError ''rewritten_content: field required''))"

definition reply_state :: state where
  "reply_state =
     \<lparr>email = work_email,
      messages = [HumanMessage ''m1'' ''hello'',
                  AIMessage ''m2'' ''drafting'' [draft_call ''ResponseEmailDraft'']],
      triage = Some (RespondTo \<lparr>logic = ''needs an answer'', response = ''email''\<rparr>)\<rparr>"

section \<open>Text without the characters that need care\<close>

lemma concat_code_points: "concat (code_points s) = s"
  by (induction s) (auto split: list.splits)

lemma code_points_subset: "p \<in> set (code_points s) \<Longrightarrow> set p \<subseteq> set s"
proof -
  assume "p \<in> set (code_points s)"
  then have "set p \<subseteq> set (concat (code_points s))" by auto
  then show ?thesis by (simp add: concat_code_points)
qed

text \<open>On a text without the bytes \<open>B0\<close> and \<open>84\<close>, so without U+0130 and U+212A, \<open>lower\<close>
  works byte by byte.\<close>

lemma lower_plain:
  assumes "CHR 0xB0 \<notin> set s" and "CHR 0x84 \<notin> set s"
  shows "lower s = map lower_char s"
proof -
  have "lower_point p = map lower_char p" if "p \<in> set (code_points s)" for p
    using code_points_subset[OF that] assms by (auto simp: lower_point_def)
  then have "map lower_point (code_points s) = map (map lower_char) (code_points s)"
    by simp
  then have "lower s = concat (map (map lower_char) (code_points s))"
    unfolding lower_def by (rule arg_cong)
  also have "\<dots> = map lower_char (concat (code_points s))"
    by (simp add: map_concat)
  finally show ?thesis by (simp add: concat_code_points)
qed

text \<open>On a text without the bytes \<open>B1\<close> and \<open>BF\<close>, so without U+0131 and U+017F, the flag
  \<open>re.IGNORECASE\<close> adds nothing.\<close>

lemma ignore_case_plain:
  assumes "CHR 0xB1 \<notin> set s" and "CHR 0xBF \<notin> set s"
  shows "ignore_case s = s"
proof -
  have "fold_point p = p" if "p \<in> set (code_points s)" for p
    using code_points_subset[OF that] assms by (auto simp: fold_point_def)
  then have "map fold_point (code_points s) = code_points s"
    by (simp add: map_idI)
  then show ?thesis by (simp add: ignore_case_def concat_code_points)
qed

text \<open>The characters that need care: "HI" written with U+0130, "outlook" written with the
  Kelvin sign, "news" written with the long s.\<close>

lemma lower_dotted_capital:
  "lower [CHR ''H'', CHR 0xC4, CHR 0xB0] = [CHR ''h'', CHR ''i'', CHR 0xCC, CHR 0x87]"
  by (simp add: lower_def lower_point_def lower_char_def is_continuation_def)

lemma lower_kelvin_sign:
  "lower (''Outloo'' @ [CHR 0xE2, CHR 0x84, CHR 0xAA]) = ''outlook''"
  by (simp add: lower_def lower_point_def lower_char_def is_continuation_def)

lemma search_long_s:
  "re_search (Gap ''nvidia'' ''news'') (''nvidia new'' @ [CHR 0xC5, CHR 0xBF])"
  by (simp add: ignore_case_def fold_point_def is_continuation_def newline_def)

section \<open>The promotional pre-filter on the scenario of the specification\<close>

lemma lower_promo_subject:
  "lower promo_subject =
     ''weekly nvidia news digest '' @ [CHR 0xE2, CHR 0x80, CHR 0x94] @ '' unsubscribe''"
  by (simp add: promo_subject_def lower_plain lower_char_def)

text \<open>Whatever the other fields of the email are, this subject is never filtered: the only
  indicator able to fire needs the word newsletter in the subject.\<close>

lemma promo_subject_never_ignored:
  "\<not> should_ignore_immediately (mail(''subject'' \<mapsto> promo_subject))"
  by (simp add: should_ignore_immediately_def get_field_def lower_promo_subject ignore_case_plain
        IMPORTANT_PATTERNS_def PROMOTIONAL_INDICATORS_def indicator_fires_def
        time_markers_def Let_def)

lemma promo_email_as_update:
  "promo_email =
     [''page_content'' \<mapsto> ''Click here to unsubscribe.'',
      ''from_email'' \<mapsto> ''news@nvidia.com''](''subject'' \<mapsto> promo_subject)"
  by (auto simp: promo_email_def fun_eq_iff)

text \<open>
  Claim C1. The specification's scenario says that the email with the subject
  "Weekly NVIDIA news digest --- unsubscribe" and a body containing "unsubscribe" is ignored by
  the pre-filter, without a call of the classifier. On the code the pre-filter returns
  \<open>False\<close> for it, and \<open>triage_input\<close> invokes the classifier once and records the
  classifier's answer (here "email"), not "no".
\<close>

theorem promo_scenario_reaches_classifier:
  "\<not> should_ignore_immediately promo_email \<and>
   triage_input \<lparr>email = promo_email, messages = [], triage = None\<rparr> (Inr []) sample_config
       (\<lambda>n. Inr email_answer) world0
     = (Inr (no_update\<lparr>upd_triage := Some (AnswerDict email_answer)\<rparr>),
        \<lparr>calls = 1, slept = []\<rparr>)"
proof -
  have a: "\<not> should_ignore_immediately promo_email"
    unfolding promo_email_as_update by (rule promo_subject_never_ignored)
  show ?thesis using a
    by (simp add: triage_input_def promo_email_def sample_config_def
          triage_retry_with_exponential_backoff_def triage_retry_loop.simps
          world0_def invoked_def no_update_def)
qed

section \<open>The retry policy\<close>

lemma triage_retry_loop_unfold:
  "triage_retry_loop func max_retries delay retries w =
     (case func (calls w) of
        Inr v \<Rightarrow> (Inr v, invoked w)
      | Inl e \<Rightarrow>
          if transient e \<and> retries < max_retries
          then triage_retry_loop func max_retries delay (retries + 1)
                 (sleep (delay * 2 ^ nat retries) (invoked w))
          else (Inl e, invoked w))"
  by (subst triage_retry_loop.simps) (auto split: sum.split exn.split)

lemma draft_retry_loop_unfold:
  "draft_retry_loop func max_retries delay retries w =
     (case func (calls w) of
        Inr v \<Rightarrow> (Inr v, invoked w)
      | Inl e \<Rightarrow>
          if draft_retryable e \<and> retries < max_retries
          then draft_retry_loop func max_retries delay (retries + 1)
                 (sleep (delay * 2 ^ nat retries) (invoked w))
          else (Inl e, invoked w))"
  by (subst draft_retry_loop.simps) (auto split: sum.split exn.split)

lemma backoff_Suc: "backoff d (Suc k) = backoff d k @ [d * 2 ^ k]"
  by (simp add: backoff_def)

lemma backoff_nth: "j < k \<Longrightarrow> backoff d k ! j = d * 2 ^ j"
  by (simp add: backoff_def)

lemma sum_backoff: "sum_list (backoff d k) = d * (2 ^ k - 1)"
  by (induction k) (simp_all add: backoff_Suc backoff_def algebra_simps)

lemma backoff_5: "backoff 1 5 = [1, 2, 4, 8, 16]"
  by (simp add: backoff_def upt_rec)

lemma transient_retryable: "transient e \<Longrightarrow> draft_retryable e"
  by (cases e) simp_all

text \<open>After \<open>j\<close> retryable failures the loop stands at \<open>retries = j\<close>, having slept the first
  \<open>j\<close> backoff terms.\<close>

lemma triage_loop_advance:
  "\<forall>i<k. \<exists>e. func (c + i) = Inl e \<and> transient e \<Longrightarrow> int k \<le> max_retries \<Longrightarrow>
   j \<le> k \<Longrightarrow>
   triage_retry_loop func max_retries delay 0 \<lparr>calls = c, slept = s\<rparr>
   = triage_retry_loop func max_retries delay (int j)
       \<lparr>calls = c + j, slept = s @ backoff delay j\<rparr>"
proof (induction j)
  case 0
  then show ?case by (simp add: backoff_def)
next
  case (Suc j)
  from Suc.prems have "j < k" by simp
  with Suc.prems(1) obtain e where e: "func (c + j) = Inl e" "transient e" by blast
  have "triage_retry_loop func max_retries delay (int j)
          \<lparr>calls = c + j, slept = s @ backoff delay j\<rparr>
      = triage_retry_loop func max_retries delay (int (Suc j))
          \<lparr>calls = c + Suc j, slept = s @ backoff delay (Suc j)\<rparr>"
    using e Suc.prems
    by (subst triage_retry_loop_unfold) (simp add: invoked_def sleep_def backoff_Suc add.commute)
  with Suc show ?case by simp
qed

lemma draft_loop_advance:
  "\<forall>i<k. \<exists>e. func (c + i) = Inl e \<and> draft_retryable e \<Longrightarrow> int k \<le> max_retries \<Longrightarrow>
   j \<le> k \<Longrightarrow>
   draft_retry_loop func max_retries delay 0 \<lparr>calls = c, slept = s\<rparr>
   = draft_retry_loop func max_retries delay (int j)
       \<lparr>calls = c + j, slept = s @ backoff delay j\<rparr>"
proof (induction j)
  case 0
  then show ?case by (simp add: backoff_def)
next
  case (Suc j)
  from Suc.prems have "j < k" by simp
  with Suc.prems(1) obtain e where e: "func (c + j) = Inl e" "draft_retryable e" by blast
  have "draft_retry_loop func max_retries delay (int j)
          \<lparr>calls = c + j, slept = s @ backoff delay j\<rparr>
      = draft_retry_loop func max_retries delay (int (Suc j))
          \<lparr>calls = c + Suc j, slept = s @ backoff delay (Suc j)\<rparr>"
    using e Suc.prems
    by (subst draft_retry_loop_unfold) (simp add: invoked_def sleep_def backoff_Suc add.commute)
  with Suc show ?case by simp
qed

lemma triage_retry_succeeds:
  assumes "\<forall>i<k. \<exists>e. func (c + i) = Inl e \<and> transient e" and "int k \<le> max_retries"
    and "func (c + k) = Inr v"
  shows "triage_retry_with_exponential_backoff func max_retries delay \<lparr>calls = c, slept = s\<rparr>
         = (Inr v, \<lparr>calls = c + k + 1, slept = s @ backoff delay k\<rparr>)"
proof -
  have "triage_retry_loop func max_retries delay (int k)
          \<lparr>calls = c + k, slept = s @ backoff delay k\<rparr>
        = (Inr v, \<lparr>calls = c + k + 1, slept = s @ backoff delay k\<rparr>)"
    using assms(3) by (subst triage_retry_loop_unfold) (simp add: invoked_def)
  then show ?thesis
    unfolding triage_retry_with_exponential_backoff_def
    using triage_loop_advance[OF assms(1,2) order_refl, of delay s] by simp
qed

lemma triage_retry_exhausted:
  assumes "\<forall>i<k. \<exists>e. func (c + i) = Inl e \<and> transient e" and "int k = max_retries"
    and "func (c + k) = Inl e"
  shows "triage_retry_with_exponential_backoff func max_retries delay \<lparr>calls = c, slept = s\<rparr>
         = (Inl e, \<lparr>calls = c + k + 1, slept = s @ backoff delay k\<rparr>)"
proof -
  have "triage_retry_loop func max_retries delay (int k)
          \<lparr>calls = c + k, slept = s @ backoff delay k\<rparr>
        = (Inl e, \<lparr>calls = c + k + 1, slept = s @ backoff delay k\<rparr>)"
    using assms(2,3) by (subst triage_retry_loop_unfold) (simp add: invoked_def)
  moreover have "int k \<le> max_retries" using assms(2) by simp
  ultimately show ?thesis
    unfolding triage_retry_with_exponential_backoff_def
    using triage_loop_advance[OF assms(1) _ order_refl, of max_retries delay s] by simp
qed

lemma draft_retry_succeeds:
  assumes "\<forall>i<k. \<exists>e. func (c + i) = Inl e \<and> draft_retryable e" and "int k \<le> max_retries"
    and "func (c + k) = Inr v"
  shows "draft_retry_with_exponential_backoff func max_retries delay \<lparr>calls = c, slept = s\<rparr>
         = (Inr v, \<lparr>calls = c + k + 1, slept = s @ backoff delay k\<rparr>)"
proof -
  have "draft_retry_loop func max_retries delay (int k)
          \<lparr>calls = c + k, slept = s @ backoff delay k\<rparr>
        = (Inr v, \<lparr>calls = c + k + 1, slept = s @ backoff delay k\<rparr>)"
    using assms(3) by (subst draft_retry_loop_unfold) (simp add: invoked_def)
  then show ?thesis
    unfolding draft_retry_with_exponential_backoff_def
    using draft_loop_advance[OF assms(1,2) order_refl, of delay s] by simp
qed

lemma draft_retry_exhausted:
  assumes "\<forall>i<k. \<exists>e. func (c + i) = Inl e \<and> draft_retryable e" and "int k = max_retries"
    and "func (c + k) = Inl e"
  shows "draft_retry_with_exponential_backoff func max_retries delay \<lparr>calls = c, slept = s\<rparr>
         = (Inl e, \<lparr>calls = c + k + 1, slept = s @ backoff delay k\<rparr>)"
proof -
  have "draft_retry_loop func max_retries delay (int k)
          \<lparr>calls = c + k, slept = s @ backoff delay k\<rparr>
        = (Inl e, \<lparr>calls = c + k + 1, slept = s @ backoff delay k\<rparr>)"
    using assms(2,3) by (subst draft_retry_loop_unfold) (simp add: invoked_def)
  moreover have "int k \<le> max_retries" using assms(2) by simp
  ultimately show ?thesis
    unfolding draft_retry_with_exponential_backoff_def
    using draft_loop_advance[OF assms(1) _ order_refl, of max_retries delay s] by simp
qed

lemma flaky_fails: "\<forall>i<k. \<exists>e. flaky k (0 + i) = Inl e \<and> transient e"
  by (simp add: flaky_def is_overloaded_def lower_plain lower_char_def)

text \<open>
  Claim C2, as amended. For both retry wrappers, with \<open>max_retries = m\<close> and
  \<open>initial_delay = d\<close> (the defaults are 5 and 1), and an operation whose first \<open>k\<close>
  invocations fail transiently: the waiting time before attempt \<open>j + 2\<close> is \<open>d * 2 ^ j\<close>; if
  invocation \<open>k\<close> succeeds and \<open>k \<le> m\<close>, the wrapped call returns the success value after
  \<open>k + 1\<close> invocations, having slept the first \<open>k\<close> backoff terms, whose sum is
  \<open>d * (2 ^ k - 1)\<close>; if \<open>k > m\<close>, the error of invocation \<open>m\<close> (attempt \<open>m + 1\<close>) is returned
  as it is, after \<open>m + 1\<close> invocations and \<open>m\<close> waits. So the policy makes up to
  \<open>max_retries + 1\<close> attempts, not \<open>max_retries\<close>.
\<close>

theorem retry_policy_backoff:
  fixes func :: "'a operation"
  assumes fails: "\<forall>i<k. \<exists>e. func i = Inl e \<and> transient e"
  shows "(\<forall>j<k. backoff d k ! j = d * 2 ^ j)
       \<and> sum_list (backoff d k) = d * (2 ^ k - 1)
       \<and> (k \<le> m \<and> func k = Inr v \<longrightarrow>
            triage_retry_with_exponential_backoff func (int m) d world0
              = (Inr v, \<lparr>calls = k + 1, slept = backoff d k\<rparr>)
          \<and> draft_retry_with_exponential_backoff func (int m) d world0
              = (Inr v, \<lparr>calls = k + 1, slept = backoff d k\<rparr>))
       \<and> (m < k \<longrightarrow>
            (\<exists>e. func m = Inl e \<and> transient e)
          \<and> triage_retry_with_exponential_backoff func (int m) d world0
              = (func m, \<lparr>calls = m + 1, slept = backoff d m\<rparr>)
          \<and> draft_retry_with_exponential_backoff func (int m) d world0
              = (func m, \<lparr>calls = m + 1, slept = backoff d m\<rparr>))"
proof (intro conjI impI allI)
  fix j assume "j < k" then show "backoff d k ! j = d * 2 ^ j" by (rule backoff_nth)
next
  show "sum_list (backoff d k) = d * (2 ^ k - 1)" by (rule sum_backoff)
next
  assume a: "k \<le> m \<and> func k = Inr v"
  have t: "\<forall>i<k. \<exists>e. func (0 + i) = Inl e \<and> transient e" using fails by simp
  then have r: "\<forall>i<k. \<exists>e. func (0 + i) = Inl e \<and> draft_retryable e"
    using transient_retryable by blast
  from a have le: "int k \<le> int m" and v: "func (0 + k) = Inr v" by simp_all
  show "triage_retry_with_exponential_backoff func (int m) d world0
              = (Inr v, \<lparr>calls = k + 1, slept = backoff d k\<rparr>)"
    using triage_retry_succeeds[OF t le v, of d "[]"] by (simp add: world0_def)
  show "draft_retry_with_exponential_backoff func (int m) d world0
              = (Inr v, \<lparr>calls = k + 1, slept = backoff d k\<rparr>)"
    using draft_retry_succeeds[OF r le v, of d "[]"] by (simp add: world0_def)
next
  assume a: "m < k"
  with fails obtain e where e: "func m = Inl e" "transient e" by blast
  then show "\<exists>e. func m = Inl e \<and> transient e" by blast
  have t: "\<forall>i<m. \<exists>e. func (0 + i) = Inl e \<and> transient e" using fails a by simp
  then have r: "\<forall>i<m. \<exists>e. func (0 + i) = Inl e \<and> draft_retryable e"
    using transient_retryable by blast
  have fm: "func (0 + m) = Inl e" using e by simp
  show "triage_retry_with_exponential_backoff func (int m) d world0
              = (func m, \<lparr>calls = m + 1, slept = backoff d m\<rparr>)"
    using triage_retry_exhausted[OF t refl fm, of d "[]"] e by (simp add: world0_def)
  show "draft_retry_with_exponential_backoff func (int m) d world0
              = (func m, \<lparr>calls = m + 1, slept = backoff d m\<rparr>)"
    using draft_retry_exhausted[OF r refl fm, of d "[]"] e by (simp add: world0_def)
qed

text \<open>The theorem at the defaults: two transient failures then success, and nine transient
  failures (more than \<open>max_retries\<close>).\<close>

theorem retry_policy_backoff_witness:
  "triage_retry_with_exponential_backoff (flaky 2) 5 1 world0
     = (Inr 7, \<lparr>calls = 3, slept = [1, 2]\<rparr>)
   \<and> draft_retry_with_exponential_backoff (flaky 2) 5 1 world0
     = (Inr 7, \<lparr>calls = 3, slept = [1, 2]\<rparr>)
   \<and> sum_list (backoff 1 2) = 3
   \<and> triage_retry_with_exponential_backoff (flaky 9) 5 1 world0
       = (Inl (InternalServerError ''Overloaded_Error: try later''),
          \<lparr>calls = 6, slept = [1, 2, 4, 8, 16]\<rparr>)
   \<and> draft_retry_with_exponential_backoff (flaky 9) 5 1 world0
       = (Inl (InternalServerError ''Overloaded_Error: try later''),
          \<lparr>calls = 6, slept = [1, 2, 4, 8, 16]\<rparr>)"
proof -
  have f2: "\<forall>i<2. \<exists>e. flaky 2 i = Inl e \<and> transient e"
    using flaky_fails[of 2] by simp
  have f9: "\<forall>i<9. \<exists>e. flaky 9 i = Inl e \<and> transient e"
    using flaky_fails[of 9] by simp
  have b2: "backoff 1 2 = [1, 2]" by (simp add: backoff_def upt_rec)
  have v2: "flaky 2 2 = Inr 7" by (simp add: flaky_def)
  have e9: "flaky 9 5 = Inl (InternalServerError ''Overloaded_Error: try later'')"
    by (simp add: flaky_def)
  show ?thesis
    using retry_policy_backoff[OF f2, of 1 5 7] retry_policy_backoff[OF f9, of 1 5 7] v2 e9
    by (simp add: b2 backoff_5)
qed

text \<open>
  Claim C2 as stated fails: with \<open>max_attempts = 5\<close> and an operation that fails transiently
  \<open>k = 5\<close> times and then succeeds, the claim (\<open>max_attempts \<le> k\<close>) has the last error
  propagate; the code makes a sixth attempt and returns its value.
\<close>

theorem retry_after_max_failures_counterexample:
  "triage_retry_with_exponential_backoff (flaky 5) 5 1 world0
     = (Inr 7, \<lparr>calls = 6, slept = [1, 2, 4, 8, 16]\<rparr>)
   \<and> draft_retry_with_exponential_backoff (flaky 5) 5 1 world0
     = (Inr 7, \<lparr>calls = 6, slept = [1, 2, 4, 8, 16]\<rparr>)"
proof -
  have t: "\<forall>i<5. \<exists>e. flaky 5 (0 + i) = Inl e \<and> transient e" by (rule flaky_fails)
  then have r: "\<forall>i<5. \<exists>e. flaky 5 (0 + i) = Inl e \<and> draft_retryable e"
    using transient_retryable by blast
  have v: "flaky 5 (0 + 5) = Inr 7" by (simp add: flaky_def)
  have le: "int 5 \<le> 5" by simp
  show ?thesis
    using triage_retry_succeeds[OF t le v, of 1 "[]"] draft_retry_succeeds[OF r le v, of 1 "[]"]
    by (simp add: world0_def backoff_5)
qed

section \<open>Routing after the human checkpoint and after drafting\<close>

lemma enter_after_human_ai:
  "enter_after_human (s\<lparr>messages := ms @ [AIMessage i c (tc # rest)]\<rparr>)
     = Inr (execute_for (call_name tc))"
  by (simp add: enter_after_human_def)

lemma enter_after_human_human:
  "enter_after_human (s\<lparr>messages := ms @ [HumanMessage i c]\<rparr>) = Inr ''draft_response''"
  by (simp add: enter_after_human_def)

text \<open>
  Claim C4. On resuming at the human checkpoint the route is read off the last message of
  the action log: a first tool call named \<open>ResponseEmailDraft\<close> leads to \<open>send_email_node\<close>,
  one named \<open>SendCalendarInvite\<close> to \<open>send_cal_invite_node\<close>; a human message appended to
  the log leads back to \<open>draft_response\<close>; a first tool call named \<open>Ignore\<close> leads to
  \<open>mark_as_read_node\<close>, whose only edge goes to \<open>END\<close>.
\<close>

theorem resume_routing:
  "(call_name tc = ''ResponseEmailDraft'' \<longrightarrow>
      enter_after_human (s\<lparr>messages := ms @ [AIMessage i c (tc # rest)]\<rparr>)
        = Inr ''send_email_node'')
 \<and> (call_name tc = ''SendCalendarInvite'' \<longrightarrow>
      enter_after_human (s\<lparr>messages := ms @ [AIMessage i c (tc # rest)]\<rparr>)
        = Inr ''send_cal_invite_node'')
 \<and> enter_after_human (s\<lparr>messages := ms @ [HumanMessage i c]\<rparr>) = Inr ''draft_response''
 \<and> (call_name tc = ''Ignore'' \<longrightarrow>
      enter_after_human (s\<lparr>messages := ms @ [AIMessage i c (tc # rest)]\<rparr>)
        = Inr ''mark_as_read_node''
      \<and> successor ''mark_as_read_node'' (s\<lparr>messages := ms @ [AIMessage i c (tc # rest)]\<rparr>)
        = Inr END)"
  by (simp add: enter_after_human_ai enter_after_human_human execute_for_def successor_def
        edges_def)

theorem resume_routing_witness:
  "enter_after_human
     \<lparr>email = work_email,
      messages = [HumanMessage ''m1'' ''hello'',
                  AIMessage ''m2'' [] [draft_call ''ResponseEmailDraft'']],
      triage = None\<rparr> = Inr ''send_email_node''
 \<and> enter_after_human
     \<lparr>email = work_email,
      messages = [HumanMessage ''m1'' ''hello'',
                  AIMessage ''m2'' [] [draft_call ''SendCalendarInvite'']],
      triage = None\<rparr> = Inr ''send_cal_invite_node''
 \<and> enter_after_human
     \<lparr>email = work_email,
      messages = [HumanMessage ''m1'' ''hello'', AIMessage ''m2'' [] [draft_call ''Ignore'']],
      triage = None\<rparr> = Inr ''mark_as_read_node''
 \<and> successor ''mark_as_read_node''
     \<lparr>email = work_email,
      messages = [HumanMessage ''m1'' ''hello'', AIMessage ''m2'' [] [draft_call ''Ignore'']],
      triage = None\<rparr> = Inr END"
  using
    resume_routing[where tc = "draft_call ''ResponseEmailDraft''"
      and s = "\<lparr>email = work_email, messages = [], triage = None\<rparr>"
      and ms = "[HumanMessage ''m1'' ''hello'']" and i = "''m2''" and c = "[]" and rest = "[]"]
    resume_routing[where tc = "draft_call ''SendCalendarInvite''"
      and s = "\<lparr>email = work_email, messages = [], triage = None\<rparr>"
      and ms = "[HumanMessage ''m1'' ''hello'']" and i = "''m2''" and c = "[]" and rest = "[]"]
    resume_routing[where tc = "draft_call ''Ignore''"
      and s = "\<lparr>email = work_email, messages = [], triage = None\<rparr>"
      and ms = "[HumanMessage ''m1'' ''hello'']" and i = "''m2''" and c = "[]" and rest = "[]"]
  by (simp add: draft_call_def)

text \<open>
  Claim C9. When the last message of the log (the drafting stage's output) has no
  \<open>tool_calls\<close> attribute or an empty list of tool calls, \<open>take_action\<close> returns
  \<open>mark_as_read_node\<close>, neither \<open>bad_tool_name\<close> nor an error, and from that node the run
  goes to \<open>END\<close>.
\<close>

theorem no_tool_calls_marks_as_read:
  assumes "messages s \<noteq> []"
    and "tool_calls (last (messages s)) = None \<or> tool_calls (last (messages s)) = Some []"
  shows "take_action s = Inr ''mark_as_read_node''
       \<and> successor ''mark_as_read_node'' s' = Inr END"
  using assms by (auto simp: take_action_def last_item_def successor_def edges_def)

theorem no_tool_calls_marks_as_read_witness:
  "take_action
     \<lparr>email = work_email, messages = [AIMessage ''m1'' ''Nothing to do.'' []], triage = None\<rparr>
     = Inr ''mark_as_read_node''
   \<and> take_action
     \<lparr>email = work_email, messages = [HumanMessage ''m1'' ''hello''], triage = None\<rparr>
     = Inr ''mark_as_read_node''
   \<and> successor ''mark_as_read_node'' \<lparr>email = work_email, messages = [], triage = None\<rparr>
     = Inr END"
  using
    no_tool_calls_marks_as_read[of
      "\<lparr>email = work_email, messages = [AIMessage ''m1'' ''Nothing to do.'' []], triage = None\<rparr>"
      "\<lparr>email = work_email, messages = [], triage = None\<rparr>"]
    no_tool_calls_marks_as_read[of
      "\<lparr>email = work_email, messages = [HumanMessage ''m1'' ''hello''], triage = None\<rparr>"
      "\<lparr>email = work_email, messages = [], triage = None\<rparr>"]
  by simp

section \<open>Re-triage\<close>

text \<open>
  Claim C6. Whenever \<open>triage_input\<close> returns an update: if the log of the state is not empty,
  the update's \<open>messages\<close> entry is one \<open>RemoveMessage\<close> for the id of every message of the
  log, in order, next to the new decision; if the log is empty the update has no \<open>messages\<close>
  entry. In both cases it carries a decision and nothing else.
\<close>

theorem retriage_clears_messages:
  assumes "triage_input s examples prompt_config llm w = (Inr u, w')"
  shows "(messages s \<noteq> [] \<longrightarrow>
            upd_messages u = Some (map (\<lambda>m. RemoveMessage (message_id m)) (messages s)))
       \<and> (messages s = [] \<longrightarrow> upd_messages u = None)
       \<and> (\<exists>decision. upd_triage u = Some decision)
       \<and> upd_email u = None \<and> upd_draft u = None"
proof (cases "should_ignore_immediately (email s)")
  case True
  with assms show ?thesis
    by (auto simp: triage_input_def no_update_def Let_def split: if_splits)
next
  case False
  with assms obtain t where
    "u = (if length (messages s) > 0
          then no_update\<lparr>upd_triage := Some (AnswerDict t),
                 upd_messages := Some (map (\<lambda>m. RemoveMessage (message_id m)) (messages s))\<rparr>
          else no_update\<lparr>upd_triage := Some (AnswerDict t)\<rparr>)"
    by (auto simp: triage_input_def split: if_splits sum.splits option.splits prod.splits)
  then show ?thesis by (simp add: no_update_def)
qed

lemma work_email_not_ignored: "\<not> should_ignore_immediately work_email"
  by (simp add: work_email_def get_field_def lower_plain lower_char_def
        should_ignore_immediately_def ignore_case_plain IMPORTANT_PATTERNS_def PROMOTIONAL_INDICATORS_def
        indicator_fires_def time_markers_def Let_def)

lemma retriage_run:
  "triage_input drafted_state (Inr []) sample_config (\<lambda>n. Inr notify_answer) world0
     = (Inr (no_update\<lparr>upd_triage := Some (AnswerDict notify_answer),
               upd_messages := Some [RemoveMessage ''m1'', RemoveMessage ''m2'']\<rparr>),
        \<lparr>calls = 1, slept = []\<rparr>)"
  using work_email_not_ignored
  by (simp add: triage_input_def drafted_state_def work_email_def sample_config_def
        triage_retry_with_exponential_backoff_def triage_retry_loop.simps
        world0_def invoked_def no_update_def)

theorem retriage_clears_messages_witness:
  "triage_input drafted_state (Inr []) sample_config (\<lambda>n. Inr notify_answer) world0
     = (Inr (no_update\<lparr>upd_triage := Some (AnswerDict notify_answer),
               upd_messages := Some [RemoveMessage ''m1'', RemoveMessage ''m2'']\<rparr>),
        \<lparr>calls = 1, slept = []\<rparr>)
   \<and> map (\<lambda>m. RemoveMessage (message_id m)) (messages drafted_state)
     = [RemoveMessage ''m1'', RemoveMessage ''m2'']"
  using retriage_clears_messages[OF retriage_run] retriage_run
  by (simp add: drafted_state_def no_update_def)

section \<open>Routing a notify decision\<close>

lemma invitation_not_ignored:
  "contains (lower (get_field mail ''subject'')) ''invitation'' \<Longrightarrow>
   list_ex (\<lambda>marker. contains (lower (get_field mail ''subject'')) marker) time_markers \<Longrightarrow>
   \<not> should_ignore_immediately mail"
  by (simp add: should_ignore_immediately_def Let_def)

text \<open>What the triage stage stores: the object with the response "no" on the pre-filter
  path, the parser's dictionary on the classifier path.\<close>

lemma prefilter_decides_no:
  "triage_input s examples prompt_config llm w = (Inr u, w') \<Longrightarrow>
   should_ignore_immediately (email s) \<Longrightarrow>
   upd_triage u = Some (RespondTo
     \<lparr>logic = ''This is clearly promotional content that can be safely ignored.'',
      response = ''no''\<rparr>)"
  by (auto simp: triage_input_def no_update_def Let_def split: if_splits)

lemma classifier_stores_dict:
  "triage_input s examples prompt_config llm w = (Inr u, w') \<Longrightarrow>
   \<not> should_ignore_immediately (email s) \<Longrightarrow>
   \<exists>d. upd_triage u = Some (AnswerDict d)"
  by (auto simp: triage_input_def no_update_def
           split: if_splits sum.splits option.splits prod.splits)

text \<open>On a dictionary the router's read of \<open>.response\<close> raises, whatever the dictionary
  holds.\<close>

lemma dict_decision_not_routed:
  "\<not> should_ignore_immediately (email s) \<Longrightarrow> triage s = Some (AnswerDict d) \<Longrightarrow>
   route_after_triage s = Inl (no_attribute ''dict'' ''response'')"
  by (simp add: route_after_triage_def triage_response_def)

text \<open>
  On a \<open>RespondTo\<close> object with the response "notify" the router does what its notify branch
  says: \<open>draft_response\<close> exactly when the lower-cased subject contains "invitation", one of
  the time markers and one of the career terms, and \<open>notify\<close> otherwise, unless the
  pre-filter fires on the email.
\<close>

lemma respond_to_notify_routing:
  assumes "triage_response s = Inr ''notify''"
  shows "(route_after_triage s = Inr ''draft_response''
            \<longleftrightarrow> upgrade_condition (lower (get_field (email s) ''subject'')))
       \<and> (\<not> should_ignore_immediately (email s) \<longrightarrow>
            route_after_triage s =
              (if upgrade_condition (lower (get_field (email s) ''subject''))
               then Inr ''draft_response'' else Inr ''notify''))
       \<and> (should_ignore_immediately (email s) \<longrightarrow>
            route_after_triage s = Inr ''mark_as_read_node'')"
  using assms invitation_not_ignored[of "email s"]
  by (auto simp: route_after_triage_def upgrade_condition_def Let_def)

lemma invitation_upgrade:
  "upgrade_condition (lower (get_field invitation_email ''subject''))"
  by (simp add: invitation_email_def get_field_def lower_plain lower_char_def
        upgrade_condition_def time_markers_def career_terms_def)

lemma invitation_email_not_ignored: "\<not> should_ignore_immediately invitation_email"
  by (simp add: invitation_email_def get_field_def lower_plain lower_char_def
        should_ignore_immediately_def ignore_case_plain IMPORTANT_PATTERNS_def time_markers_def Let_def)

lemma invitation_triage_run:
  "triage_input \<lparr>email = invitation_email, messages = [], triage = None\<rparr> (Inr [])
       sample_config (\<lambda>n. Inr notify_answer) world0
     = (Inr (no_update\<lparr>upd_triage := Some (AnswerDict notify_answer)\<rparr>),
        \<lparr>calls = 1, slept = []\<rparr>)"
  using invitation_email_not_ignored
  by (simp add: triage_input_def invitation_email_def sample_config_def
        triage_retry_with_exponential_backoff_def triage_retry_loop.simps
        world0_def invoked_def no_update_def)

text \<open>
  Claim C10. The claim describes the router's notify branch; the code does not reach it on
  a decision of the classifier. For the email with the subject "Invitation: Job Fair @ 3pm"
  the classifier answers "notify"; \<open>triage_input\<close> stores the parser's dictionary; the
  subject meets the upgrade test, so the claim has the run go to \<open>draft_response\<close>; on the
  state with that decision \<open>route_after_triage\<close> raises \<open>AttributeError\<close>. The same happens
  where the claim has the run go to \<open>notify\<close>.
\<close>

theorem classifier_notify_not_routed:
  "triage_input \<lparr>email = invitation_email, messages = [], triage = None\<rparr> (Inr [])
       sample_config (\<lambda>n. Inr notify_answer) world0
     = (Inr (no_update\<lparr>upd_triage := Some (AnswerDict notify_answer)\<rparr>),
        \<lparr>calls = 1, slept = []\<rparr>)
   \<and> notify_answer ''response'' = Some ''notify''
   \<and> upgrade_condition (lower (get_field invitation_email ''subject''))
   \<and> route_after_triage
       \<lparr>email = invitation_email, messages = [], triage = Some (AnswerDict notify_answer)\<rparr>
     = Inl (no_attribute ''dict'' ''response'')
   \<and> route_after_triage
       \<lparr>email = work_email, messages = [], triage = Some (AnswerDict notify_answer)\<rparr>
     = Inl (no_attribute ''dict'' ''response'')"
proof -
  have a: "route_after_triage
       \<lparr>email = invitation_email, messages = [], triage = Some (AnswerDict notify_answer)\<rparr>
     = Inl (no_attribute ''dict'' ''response'')"
    by (rule dict_decision_not_routed) (simp_all add: invitation_email_not_ignored)
  have b: "route_after_triage
       \<lparr>email = work_email, messages = [], triage = Some (AnswerDict notify_answer)\<rparr>
     = Inl (no_attribute ''dict'' ''response'')"
    by (rule dict_decision_not_routed) (simp_all add: work_email_not_ignored)
  have c: "notify_answer ''response'' = Some ''notify''"
    by (simp add: notify_answer_def)
  from invitation_triage_run a b c invitation_upgrade show ?thesis by simp
qed

section \<open>The lifecycle of a preference\<close>

lemma read_preference_stored:
  "aget st ns key = Some v \<Longrightarrow> v ''data'' = Some x \<Longrightarrow>
   read_preference st ns key cfg dk = (Inr x, st)"
  by (simp add: read_preference_def Let_def)

lemma read_preference_result:
  assumes "read_preference st ns key cfg dk = (Inr x, st1)"
  shows "(\<exists>v. aget st1 ns key = Some v \<and> v ''data'' = Some x)
       \<and> (\<forall>key'. key' \<noteq> key \<longrightarrow> aget st1 ns key' = aget st ns key')
       \<and> (aget st ns key = None \<longrightarrow> cfg dk = Some x \<and> st1 = aput st ns key [''data'' \<mapsto> x])
       \<and> (\<forall>v y. aget st ns key = Some v \<and> v ''data'' = Some y \<longrightarrow> x = y \<and> st1 = st)"
  using assms
  by (auto simp: read_preference_def lookup_def aget_def aput_def Let_def
           split: option.splits sum.splits)

lemma aget_aput_same: "aget (aput st ns key v) ns key = Some v"
  by (simp add: aget_def aput_def)

lemma aget_aput_other: "key' \<noteq> key \<Longrightarrow> aget (aput st ns key v) ns key' = aget st ns key'"
  by (simp add: aget_def aput_def)

lemma draft_preferences_result:
  assumes "draft_preferences configurable cfg st = (Inr (sched, rand, resp), st')"
  shows "\<exists>st1 st2.
           read_preference st (namespace_of configurable) ''schedule_preferences'' cfg
             ''schedule_preferences'' = (Inr sched, st1)
         \<and> read_preference st1 (namespace_of configurable) ''random_preferences'' cfg
             ''background_preferences'' = (Inr rand, st2)
         \<and> read_preference st2 (namespace_of configurable) ''response_preferences'' cfg
             ''response_preferences'' = (Inr resp, st')"
  using assms
  by (auto simp: draft_preferences_def Let_def split: prod.splits sum.splits)

lemma draft_preferences_stored:
  assumes "aget st (namespace_of configurable) ''schedule_preferences'' = Some v1"
      and "v1 ''data'' = Some sched"
      and "aget st (namespace_of configurable) ''random_preferences'' = Some v2"
      and "v2 ''data'' = Some rand"
      and "aget st (namespace_of configurable) ''response_preferences'' = Some v3"
      and "v3 ''data'' = Some resp"
  shows "draft_preferences configurable cfg st = (Inr (sched, rand, resp), st)"
  using assms by (simp add: draft_preferences_def Let_def read_preference_stored)

text \<open>With its default configured, a read returns a value.\<close>

lemma read_preference_total:
  "cfg dk = Some d \<Longrightarrow> \<exists>x st1. read_preference st ns key cfg dk = (Inr x, st1)"
  by (auto simp: read_preference_def lookup_def Let_def split: option.splits)

lemma draft_preferences_total:
  assumes "cfg ''schedule_preferences'' = Some d1"
      and "cfg ''background_preferences'' = Some d2"
      and "cfg ''response_preferences'' = Some d3"
  shows "\<exists>sched rand resp st'.
           draft_preferences configurable cfg st = (Inr (sched, rand, resp), st')"
proof -
  from read_preference_total[where cfg = cfg and dk = "''schedule_preferences''", OF assms(1)]
  obtain x1 st1 where
    1: "read_preference st (namespace_of configurable) ''schedule_preferences'' cfg
          ''schedule_preferences'' = (Inr x1, st1)" by blast
  from read_preference_total[where cfg = cfg and dk = "''background_preferences''", OF assms(2)]
  obtain x2 st2 where
    2: "read_preference st1 (namespace_of configurable) ''random_preferences'' cfg
          ''background_preferences'' = (Inr x2, st2)" by blast
  from read_preference_total[where cfg = cfg and dk = "''response_preferences''", OF assms(3)]
  obtain x3 st3 where
    3: "read_preference st2 (namespace_of configurable) ''response_preferences'' cfg
          ''response_preferences'' = (Inr x3, st3)" by blast
  have "draft_preferences configurable cfg st = (Inr (x1, x2, x3), st3)"
    by (simp add: draft_preferences_def Let_def 1 2 3)
  then show ?thesis by blast
qed

text \<open>What a successful read of the four keys tells about the store before and after.\<close>

lemma preference_reads:
  assumes d: "draft_preferences configurable cfg st = (Inr (sched, rand, resp), st')"
      and r: "rewrite_instructions configurable cfg st = (Inr instr, st'')"
      and ns: "ns = namespace_of configurable"
  shows "(aget st ns ''schedule_preferences'' = None \<longrightarrow>
            cfg ''schedule_preferences'' = Some sched
          \<and> aget st' ns ''schedule_preferences'' = Some [''data'' \<mapsto> sched])
       \<and> (aget st ns ''random_preferences'' = None \<longrightarrow>
            cfg ''background_preferences'' = Some rand
          \<and> aget st' ns ''random_preferences'' = Some [''data'' \<mapsto> rand])
       \<and> (aget st ns ''response_preferences'' = None \<longrightarrow>
            cfg ''response_preferences'' = Some resp
          \<and> aget st' ns ''response_preferences'' = Some [''data'' \<mapsto> resp])
       \<and> (aget st ns ''rewrite_instructions'' = None \<longrightarrow>
            cfg ''rewrite_preferences'' = Some instr
          \<and> aget st'' ns ''rewrite_instructions'' = Some [''data'' \<mapsto> instr])
       \<and> (\<forall>v x. aget st ns ''schedule_preferences'' = Some v \<and> v ''data'' = Some x
              \<longrightarrow> sched = x)
       \<and> (\<forall>v x. aget st ns ''random_preferences'' = Some v \<and> v ''data'' = Some x
              \<longrightarrow> rand = x)
       \<and> (\<forall>v x. aget st ns ''response_preferences'' = Some v \<and> v ''data'' = Some x
              \<longrightarrow> resp = x)
       \<and> (\<forall>v x. aget st ns ''rewrite_instructions'' = Some v \<and> v ''data'' = Some x
              \<longrightarrow> instr = x)
       \<and> draft_preferences configurable cfg' st' = (Inr (sched, rand, resp), st')
       \<and> rewrite_instructions configurable cfg' st'' = (Inr instr, st'')
       \<and> draft_preferences configurable cfg'
            (aput st' ns ''schedule_preferences'' [''data'' \<mapsto> new])
           = (Inr (new, rand, resp), aput st' ns ''schedule_preferences'' [''data'' \<mapsto> new])
       \<and> draft_preferences configurable cfg'
            (aput st' ns ''random_preferences'' [''data'' \<mapsto> new])
           = (Inr (sched, new, resp), aput st' ns ''random_preferences'' [''data'' \<mapsto> new])
       \<and> draft_preferences configurable cfg'
            (aput st' ns ''response_preferences'' [''data'' \<mapsto> new])
           = (Inr (sched, rand, new), aput st' ns ''response_preferences'' [''data'' \<mapsto> new])
       \<and> rewrite_instructions configurable cfg'
            (aput st'' ns ''rewrite_instructions'' [''data'' \<mapsto> new])
           = (Inr new, aput st'' ns ''rewrite_instructions'' [''data'' \<mapsto> new])"
proof -
  from draft_preferences_result[OF d] obtain st1 st2 where
    r1: "read_preference st ns ''schedule_preferences'' cfg ''schedule_preferences''
           = (Inr sched, st1)"
    and r2: "read_preference st1 ns ''random_preferences'' cfg ''background_preferences''
           = (Inr rand, st2)"
    and r3: "read_preference st2 ns ''response_preferences'' cfg ''response_preferences''
           = (Inr resp, st')"
    unfolding ns by blast
  note p1 = read_preference_result[OF r1]
  note p2 = read_preference_result[OF r2]
  note p3 = read_preference_result[OF r3]
  from r have r4: "read_preference st ns ''rewrite_instructions'' cfg ''rewrite_preferences''
           = (Inr instr, st'')"
    by (simp add: rewrite_instructions_def ns)
  note p4 = read_preference_result[OF r4]
  have k1: "aget st' ns ''schedule_preferences'' = aget st1 ns ''schedule_preferences''"
    using p2 p3 by simp
  have k2: "aget st' ns ''random_preferences'' = aget st2 ns ''random_preferences''"
    using p3 by simp
  have a1: "aget st1 ns ''random_preferences'' = aget st ns ''random_preferences''"
    using p1 by simp
  have a2: "aget st2 ns ''response_preferences'' = aget st ns ''response_preferences''"
    using p1 p2 by simp
  from p1 k1 obtain v1 where
    v1: "aget st' ns ''schedule_preferences'' = Some v1" "v1 ''data'' = Some sched"
    by auto
  from p2 k2 obtain v2 where
    v2: "aget st' ns ''random_preferences'' = Some v2" "v2 ''data'' = Some rand"
    by auto
  from p3 obtain v3 where
    v3: "aget st' ns ''response_preferences'' = Some v3" "v3 ''data'' = Some resp"
    by auto
  from p4 obtain v4 where
    v4: "aget st'' ns ''rewrite_instructions'' = Some v4" "v4 ''data'' = Some instr"
    by auto
  have c1: "aget st ns ''schedule_preferences'' = None \<longrightarrow>
            cfg ''schedule_preferences'' = Some sched
          \<and> aget st' ns ''schedule_preferences'' = Some [''data'' \<mapsto> sched]"
    using p1 k1 by (auto simp: aget_aput_same)
  have c2: "aget st ns ''random_preferences'' = None \<longrightarrow>
            cfg ''background_preferences'' = Some rand
          \<and> aget st' ns ''random_preferences'' = Some [''data'' \<mapsto> rand]"
    using p2 k2 a1 by (auto simp: aget_aput_same)
  have c3: "aget st ns ''response_preferences'' = None \<longrightarrow>
            cfg ''response_preferences'' = Some resp
          \<and> aget st' ns ''response_preferences'' = Some [''data'' \<mapsto> resp]"
    using p3 a2 by (auto simp: aget_aput_same)
  have c4: "aget st ns ''rewrite_instructions'' = None \<longrightarrow>
            cfg ''rewrite_preferences'' = Some instr
          \<and> aget st'' ns ''rewrite_instructions'' = Some [''data'' \<mapsto> instr]"
    using p4 by (auto simp: aget_aput_same)
  have c5: "draft_preferences configurable cfg' st' = (Inr (sched, rand, resp), st')"
    using draft_preferences_stored[of st' configurable v1 sched v2 rand v3 resp cfg'] v1 v2 v3
    by (simp add: ns)
  have c6: "rewrite_instructions configurable cfg' st'' = (Inr instr, st'')"
    using read_preference_stored[OF v4] by (simp add: rewrite_instructions_def ns)
  have c7: "draft_preferences configurable cfg'
            (aput st' ns ''schedule_preferences'' [''data'' \<mapsto> new])
           = (Inr (new, rand, resp), aput st' ns ''schedule_preferences'' [''data'' \<mapsto> new])"
    using v2 v3
    by (intro draft_preferences_stored[where ?v1.0 = "[''data'' \<mapsto> new]"
                and ?v2.0 = v2 and ?v3.0 = v3])
       (simp_all add: ns[symmetric] aget_aput_same aget_aput_other)
  have c8: "draft_preferences configurable cfg'
            (aput st' ns ''random_preferences'' [''data'' \<mapsto> new])
           = (Inr (sched, new, resp), aput st' ns ''random_preferences'' [''data'' \<mapsto> new])"
    using v1 v3
    by (intro draft_preferences_stored[where ?v1.0 = v1
                and ?v2.0 = "[''data'' \<mapsto> new]" and ?v3.0 = v3])
       (simp_all add: ns[symmetric] aget_aput_same aget_aput_other)
  have c9: "draft_preferences configurable cfg'
            (aput st' ns ''response_preferences'' [''data'' \<mapsto> new])
           = (Inr (sched, rand, new), aput st' ns ''response_preferences'' [''data'' \<mapsto> new])"
    using v1 v2
    by (intro draft_preferences_stored[where ?v1.0 = v1 and ?v2.0 = v2
                and ?v3.0 = "[''data'' \<mapsto> new]"])
       (simp_all add: ns[symmetric] aget_aput_same aget_aput_other)
  have c10: "rewrite_instructions configurable cfg'
            (aput st'' ns ''rewrite_instructions'' [''data'' \<mapsto> new])
           = (Inr new, aput st'' ns ''rewrite_instructions'' [''data'' \<mapsto> new])"
    unfolding rewrite_instructions_def ns[symmetric]
    by (rule read_preference_stored[where v = "[''data'' \<mapsto> new]"])
       (simp_all add: aget_aput_same)
  have s1: "\<forall>v x. aget st ns ''schedule_preferences'' = Some v \<and> v ''data'' = Some x
              \<longrightarrow> sched = x"
    using p1 by blast
  have s2: "\<forall>v x. aget st ns ''random_preferences'' = Some v \<and> v ''data'' = Some x
              \<longrightarrow> rand = x"
    using p2 a1 by auto
  have s3: "\<forall>v x. aget st ns ''response_preferences'' = Some v \<and> v ''data'' = Some x
              \<longrightarrow> resp = x"
    using p3 a2 by auto
  have s4: "\<forall>v x. aget st ns ''rewrite_instructions'' = Some v \<and> v ''data'' = Some x
              \<longrightarrow> instr = x"
    using p4 by blast
  from c1 c2 c3 c4 s1 s2 s3 s4 c5 c6 c7 c8 c9 c10 show ?thesis by blast
qed


text \<open>
  Claim C5. Let the four defaults be configured in \<open>cfg\<close>, and let \<open>ns\<close> be the namespace of
  the assistant. From any store \<open>st\<close> the drafting stage reads its three keys and the rewrite
  stage its key, with these results. For a key with no item in \<open>st\<close>, the value used is the
  configured default and the store afterwards holds it under \<open>data\<close>. For a key with a stored
  item, the value used is the stored one. A subsequent read, with any configuration \<open>cfg'\<close>
  whatever, returns the same values and leaves the store as it is. After a write of \<open>new\<close>
  under a key (what the reflection step does), a read returns \<open>new\<close> for that key and never
  a default.
\<close>

theorem preference_lifecycle:
  assumes ns: "ns = namespace_of configurable"
      and d1: "cfg ''schedule_preferences'' = Some d1"
      and d2: "cfg ''background_preferences'' = Some d2"
      and d3: "cfg ''response_preferences'' = Some d3"
      and d4: "cfg ''rewrite_preferences'' = Some d4"
  shows "\<exists>sched rand resp instr st' st''.
         draft_preferences configurable cfg st = (Inr (sched, rand, resp), st')
       \<and> rewrite_instructions configurable cfg st = (Inr instr, st'')
       \<and> (aget st ns ''schedule_preferences'' = None \<longrightarrow>
            sched = d1 \<and> aget st' ns ''schedule_preferences'' = Some [''data'' \<mapsto> d1])
       \<and> (aget st ns ''random_preferences'' = None \<longrightarrow>
            rand = d2 \<and> aget st' ns ''random_preferences'' = Some [''data'' \<mapsto> d2])
       \<and> (aget st ns ''response_preferences'' = None \<longrightarrow>
            resp = d3 \<and> aget st' ns ''response_preferences'' = Some [''data'' \<mapsto> d3])
       \<and> (aget st ns ''rewrite_instructions'' = None \<longrightarrow>
            instr = d4 \<and> aget st'' ns ''rewrite_instructions'' = Some [''data'' \<mapsto> d4])
       \<and> (\<forall>v x. aget st ns ''schedule_preferences'' = Some v \<and> v ''data'' = Some x
              \<longrightarrow> sched = x)
       \<and> (\<forall>v x. aget st ns ''random_preferences'' = Some v \<and> v ''data'' = Some x
              \<longrightarrow> rand = x)
       \<and> (\<forall>v x. aget st ns ''response_preferences'' = Some v \<and> v ''data'' = Some x
              \<longrightarrow> resp = x)
       \<and> (\<forall>v x. aget st ns ''rewrite_instructions'' = Some v \<and> v ''data'' = Some x
              \<longrightarrow> instr = x)
       \<and> draft_preferences configurable cfg' st' = (Inr (sched, rand, resp), st')
       \<and> rewrite_instructions configurable cfg' st'' = (Inr instr, st'')
       \<and> draft_preferences configurable cfg'
            (aput st' ns ''schedule_preferences'' [''data'' \<mapsto> new])
           = (Inr (new, rand, resp), aput st' ns ''schedule_preferences'' [''data'' \<mapsto> new])
       \<and> draft_preferences configurable cfg'
            (aput st' ns ''random_preferences'' [''data'' \<mapsto> new])
           = (Inr (sched, new, resp), aput st' ns ''random_preferences'' [''data'' \<mapsto> new])
       \<and> draft_preferences configurable cfg'
            (aput st' ns ''response_preferences'' [''data'' \<mapsto> new])
           = (Inr (sched, rand, new), aput st' ns ''response_preferences'' [''data'' \<mapsto> new])
       \<and> rewrite_instructions configurable cfg'
            (aput st'' ns ''rewrite_instructions'' [''data'' \<mapsto> new])
           = (Inr new, aput st'' ns ''rewrite_instructions'' [''data'' \<mapsto> new])"
proof -
  from draft_preferences_total[OF d1 d2 d3] obtain sched rand resp st' where
    d: "draft_preferences configurable cfg st = (Inr (sched, rand, resp), st')" by blast
  from read_preference_total[where cfg = cfg and dk = "''rewrite_preferences''", OF d4]
  obtain instr st'' where
    r: "rewrite_instructions configurable cfg st = (Inr instr, st'')"
    unfolding rewrite_instructions_def by blast
  note reads = preference_reads[OF d r ns, of cfg' new]
  show ?thesis
    apply (rule exI[of _ sched], rule exI[of _ rand], rule exI[of _ resp])
    apply (rule exI[of _ instr], rule exI[of _ st'], rule exI[of _ st''])
    using d r reads d1 d2 d3 d4 by (intro conjI) (simp | blast)+
qed

lemma first_draft_read:
  "draft_preferences assistant_config sample_config Map.empty
     = (Inr (''Mornings only'', ''Final-year student'', ''Be brief''), seeded_store)"
  by (simp add: draft_preferences_def read_preference_def aget_def aput_def lookup_def
        namespace_of_def assistant_config_def sample_config_def seeded_store_def Let_def)

lemma first_rewrite_read:
  "rewrite_instructions assistant_config sample_config Map.empty
     = (Inr ''Friendly tone'',
        aput Map.empty ''a1'' ''rewrite_instructions'' [''data'' \<mapsto> ''Friendly tone''])"
  by (simp add: rewrite_instructions_def read_preference_def aget_def aput_def lookup_def
        namespace_of_def assistant_config_def sample_config_def Let_def)

text \<open>The theorem on an empty store: the first reads seed the defaults of \<open>sample_config\<close>,
  for the rewrite key too; a second read with an empty configuration returns them from the
  store; after a write the written value is read.\<close>

theorem preference_lifecycle_witness:
  "draft_preferences assistant_config sample_config Map.empty
     = (Inr (''Mornings only'', ''Final-year student'', ''Be brief''), seeded_store)
   \<and> rewrite_instructions assistant_config sample_config Map.empty
     = (Inr ''Friendly tone'',
        aput Map.empty ''a1'' ''rewrite_instructions'' [''data'' \<mapsto> ''Friendly tone''])
   \<and> aget seeded_store ''a1'' ''random_preferences'' = Some [''data'' \<mapsto> ''Final-year student'']
   \<and> aget (aput Map.empty ''a1'' ''rewrite_instructions'' [''data'' \<mapsto> ''Friendly tone''])
        ''a1'' ''rewrite_instructions'' = Some [''data'' \<mapsto> ''Friendly tone'']
   \<and> draft_preferences assistant_config Map.empty seeded_store
     = (Inr (''Mornings only'', ''Final-year student'', ''Be brief''), seeded_store)
   \<and> rewrite_instructions assistant_config Map.empty
       (aput Map.empty ''a1'' ''rewrite_instructions'' [''data'' \<mapsto> ''Friendly tone''])
     = (Inr ''Friendly tone'',
        aput Map.empty ''a1'' ''rewrite_instructions'' [''data'' \<mapsto> ''Friendly tone''])
   \<and> draft_preferences assistant_config Map.empty
       (aput seeded_store ''a1'' ''schedule_preferences'' [''data'' \<mapsto> ''Evenings''])
     = (Inr (''Evenings'', ''Final-year student'', ''Be brief''),
        aput seeded_store ''a1'' ''schedule_preferences'' [''data'' \<mapsto> ''Evenings''])
   \<and> rewrite_instructions assistant_config Map.empty
       (aput (aput Map.empty ''a1'' ''rewrite_instructions'' [''data'' \<mapsto> ''Friendly tone''])
          ''a1'' ''rewrite_instructions'' [''data'' \<mapsto> ''Formal tone''])
     = (Inr ''Formal tone'',
        aput (aput Map.empty ''a1'' ''rewrite_instructions'' [''data'' \<mapsto> ''Friendly tone''])
          ''a1'' ''rewrite_instructions'' [''data'' \<mapsto> ''Formal tone''])"
proof -
  have ns: "''a1'' = namespace_of assistant_config"
    by (simp add: namespace_of_def assistant_config_def)
  have c1: "sample_config ''schedule_preferences'' = Some ''Mornings only''"
    and c2: "sample_config ''background_preferences'' = Some ''Final-year student''"
    and c3: "sample_config ''response_preferences'' = Some ''Be brief''"
    and c4: "sample_config ''rewrite_preferences'' = Some ''Friendly tone''"
    by (simp_all add: sample_config_def)
  have e: "aget Map.empty ''a1'' ''random_preferences'' = None"
          "aget Map.empty ''a1'' ''rewrite_instructions'' = None"
    by (simp_all add: aget_def)
  note evenings =
    preference_lifecycle[OF ns c1 c2 c3 c4, of Map.empty Map.empty "''Evenings''"]
  note formal =
    preference_lifecycle[OF ns c1 c2 c3 c4, of Map.empty Map.empty "''Formal tone''"]
  show ?thesis
    using evenings formal e
    by (simp add: first_draft_read first_rewrite_read aget_aput_same)
qed

section \<open>The rewrite stage changes the content only\<close>

lemma first_tool_call_Inr:
  "first_tool_call m = Inr tc \<Longrightarrow> \<exists>i c rest. m = AIMessage i c (tc # rest)"
  by (cases m) (auto simp: first_tool_call_def split: list.splits)

text \<open>What a successful run of \<open>rewrite\<close> went through, step by step.\<close>

lemma rewrite_result:
  assumes "rewrite s configurable yaml_file st llm model_validate w = (Inr u, st', w')"
  shows "\<exists>prev tc a resp rtc ra t.
           messages s \<noteq> [] \<and> last (messages s) = prev
         \<and> first_tool_call prev = Inr tc \<and> call_args tc = Some a
         \<and> llm (calls w) = Inr resp \<and> first_tool_call resp = Inr rtc \<and> call_args rtc = Some ra
         \<and> model_validate ra = Inr t
         \<and> u = no_update\<lparr>upd_messages := Some
                 [AIMessage (message_id prev) (message_content prev)
                    [\<lparr>call_name = call_name tc,
                      call_args = Some (a(''content'' \<mapsto> Str t)),
                      call_arguments = None,
                      call_id = call_id tc\<rparr>]]\<rparr>"
proof -
  note R = assms[unfolded rewrite_def]
  from R obtain prev where 1: "last_item (messages s) = Inr prev"
    by (cases "last_item (messages s)") simp_all
  note R = R[unfolded 1 sum.case prod.case option.case]
  from R obtain tc where 2: "first_tool_call prev = Inr tc"
    by (cases "first_tool_call prev") simp_all
  note R = R[unfolded 2 sum.case prod.case option.case]
  from R obtain a where 3: "args_of tc = Inr a"
    by (cases "args_of tc") simp_all
  note R = R[unfolded 3 sum.case prod.case option.case]
  from R obtain draft where 4: "lookup a ''content'' = Inr draft"
    by (cases "lookup a ''content''") simp_all
  note R = R[unfolded 4 Let_def sum.case prod.case option.case]
  obtain ri st1 where 5: "rewrite_instructions configurable (get_config_async configurable yaml_file) st = (ri, st1)"
    by (cases "rewrite_instructions configurable (get_config_async configurable yaml_file) st") blast
  note R = R[unfolded 5 sum.case prod.case option.case]
  from R obtain instr where 6: "ri = Inr instr"
    by (cases ri) simp_all
  note R = R[unfolded 6 sum.case prod.case option.case]
  from R have 7: "find (\<lambda>k. email s k = None) [''page_content'', ''from_email'', ''subject'', ''to_email''] = None"
    by (cases "find (\<lambda>k. email s k = None) [''page_content'', ''from_email'', ''subject'', ''to_email'']") (simp_all del: find.simps)
  note R = R[unfolded 7 sum.case prod.case option.case]
  from R obtain name where 8: "lookup (get_config_async configurable yaml_file) ''name'' = Inr name"
    by (cases "lookup (get_config_async configurable yaml_file) ''name''") simp_all
  note R = R[unfolded 8 sum.case prod.case option.case]
  from R obtain resp where 9: "llm (calls w) = Inr resp"
    by (cases "llm (calls w)") simp_all
  note R = R[unfolded 9 sum.case prod.case option.case]
  from R obtain rtc where 10: "first_tool_call resp = Inr rtc"
    by (cases "first_tool_call resp") simp_all
  note R = R[unfolded 10 sum.case prod.case option.case]
  from R obtain ra where 11: "args_of rtc = Inr ra"
    by (cases "args_of rtc") simp_all
  note R = R[unfolded 11 sum.case prod.case option.case]
  from R obtain t where 12: "model_validate ra = Inr t"
    by (cases "model_validate ra") simp_all
  note R = R[unfolded 12 sum.case prod.case option.case]
  from 1 have m: "messages s \<noteq> []" "last (messages s) = prev"
    by (auto simp: last_item_def split: if_splits)
  from 3 have a: "call_args tc = Some a" by (auto simp: args_of_def split: option.splits)
  from 11 have ra: "call_args rtc = Some ra" by (auto simp: args_of_def split: option.splits)
  from R have u: "u = no_update\<lparr>upd_messages := Some
                 [AIMessage (message_id prev) (message_content prev)
                    [\<lparr>call_name = call_name tc,
                      call_args = Some (a(''content'' \<mapsto> Str t)),
                      call_arguments = None,
                      call_id = call_id tc\<rparr>]]\<rparr>"
    by (simp add: Let_def)
  from m 2 a 9 10 ra 12 u show ?thesis by blast
qed


text \<open>
  Claim C7. Whenever \<open>rewrite\<close> returns an update, the last message of the state is an AI
  message with a first tool call \<open>tc\<close>, and the update holds one message with the same id and
  content and one tool call that has the id and the name of \<open>tc\<close> and the arguments of \<open>tc\<close>
  with \<open>content\<close> replaced by the text \<open>t\<close> the rewriting model returned (as validated);
  every argument other than \<open>content\<close> is as it was.
\<close>

theorem rewrite_preserves_tool_call:
  assumes "rewrite s configurable yaml_file st llm model_validate w = (Inr u, st', w')"
  shows "\<exists>i c tc rest a t tc' a'.
           messages s \<noteq> [] \<and> last (messages s) = AIMessage i c (tc # rest)
         \<and> call_args tc = Some a
         \<and> (\<exists>resp rtc ra. llm (calls w) = Inr resp \<and> first_tool_call resp = Inr rtc
                \<and> call_args rtc = Some ra \<and> model_validate ra = Inr t)
         \<and> upd_messages u = Some [AIMessage i c [tc']]
         \<and> call_id tc' = call_id tc \<and> call_name tc' = call_name tc
         \<and> call_args tc' = Some a'
         \<and> a' ''content'' = Some (Str t)
         \<and> (\<forall>k. k \<noteq> ''content'' \<longrightarrow> a' k = a k)"
proof -
  from rewrite_result[OF assms] obtain prev tc a resp rtc ra t where
    h: "messages s \<noteq> []" "last (messages s) = prev"
       "first_tool_call prev = Inr tc" "call_args tc = Some a"
       "llm (calls w) = Inr resp" "first_tool_call resp = Inr rtc" "call_args rtc = Some ra"
       "model_validate ra = Inr t"
       "u = no_update\<lparr>upd_messages := Some
                 [AIMessage (message_id prev) (message_content prev)
                    [\<lparr>call_name = call_name tc,
                      call_args = Some (a(''content'' \<mapsto> Str t)),
                      call_arguments = None,
                      call_id = call_id tc\<rparr>]]\<rparr>"
    by blast
  from first_tool_call_Inr[OF h(3)] obtain i c rest where p: "prev = AIMessage i c (tc # rest)"
    by blast
  let ?tc' = "\<lparr>call_name = call_name tc, call_args = Some (a(''content'' \<mapsto> Str t)),
               call_arguments = None, call_id = call_id tc\<rparr>"
  have A: "upd_messages u = Some [AIMessage i c [?tc']]"
    using h(9) p by (simp add: no_update_def)
  have B: "\<exists>resp rtc ra. llm (calls w) = Inr resp \<and> first_tool_call resp = Inr rtc
                \<and> call_args rtc = Some ra \<and> model_validate ra = Inr t"
    using h(5,6,7,8) by blast
  have C: "last (messages s) = AIMessage i c (tc # rest)"
    using h(2) p by simp
  show ?thesis
    apply (rule exI[of _ i], rule exI[of _ c], rule exI[of _ tc], rule exI[of _ rest])
    apply (rule exI[of _ a], rule exI[of _ t], rule exI[of _ ?tc'])
    apply (rule exI[of _ "a(''content'' \<mapsto> Str t)"])
    using h(1) h(4) A B C by simp
qed

lemma rewrite_run:
  "rewrite reply_state assistant_config sample_config Map.empty rewrite_llm validate_rewritten world0
   = (Inr (no_update\<lparr>upd_messages := Some
        [AIMessage ''m2'' ''drafting''
           [\<lparr>call_name = ''ResponseEmailDraft'',
             call_args = Some [''content'' \<mapsto> Str ''Hi Sam, yes!'', ''new_recipients'' \<mapsto> StrList []],
             call_arguments = None,
             call_id = ''toolu_01''\<rparr>]]\<rparr>),
      aput Map.empty ''a1'' ''rewrite_instructions'' [''data'' \<mapsto> ''Friendly tone''],
      \<lparr>calls = 1, slept = []\<rparr>)"
proof -
  have m: "[''content'' \<mapsto> Str ''Dear Sam, yes.'', ''new_recipients'' \<mapsto> StrList []](''content'' \<mapsto> Str ''Hi Sam, yes!'')
         = [''content'' \<mapsto> Str ''Hi Sam, yes!'', ''new_recipients'' \<mapsto> StrList []]"
    by (auto simp: fun_eq_iff)
  have 1: "last_item (messages reply_state) = Inr (AIMessage ''m2'' ''drafting'' [draft_call ''ResponseEmailDraft''])"
    by (simp add: reply_state_def last_item_def)
  have 2: "first_tool_call (AIMessage ''m2'' ''drafting'' [draft_call ''ResponseEmailDraft'']) = Inr (draft_call ''ResponseEmailDraft'')"
    by (simp add: first_tool_call_def)
  have 3: "args_of (draft_call ''ResponseEmailDraft'') = Inr [''content'' \<mapsto> Str ''Dear Sam, yes.'', ''new_recipients'' \<mapsto> StrList []]"
    by (simp add: args_of_def draft_call_def)
  have 4: "lookup [''content'' \<mapsto> Str ''Dear Sam, yes.'', ''new_recipients'' \<mapsto> StrList []] ''content'' = Inr (Str ''Dear Sam, yes.'')"
    by (simp add: lookup_def)
  have 5: "get_config_async assistant_config sample_config = sample_config"
    by (simp add: get_config_async_def assistant_config_def)
  have 6: "rewrite_instructions assistant_config sample_config Map.empty
     = (Inr ''Friendly tone'',
        aput Map.empty ''a1'' ''rewrite_instructions'' [''data'' \<mapsto> ''Friendly tone''])"
  by (simp add: rewrite_instructions_def read_preference_def aget_def aput_def lookup_def
        namespace_of_def assistant_config_def sample_config_def Let_def)
  have 7: "find (\<lambda>k. email reply_state k = None) [''page_content'', ''from_email'', ''subject'', ''to_email''] = None"
    by (simp add: reply_state_def work_email_def)
  have 8: "lookup sample_config ''name'' = Inr ''Aryan''"
    by (simp add: lookup_def sample_config_def)
  have 9: "first_tool_call (AIMessage [] []
            [\<lparr>call_name = ''ReWriteEmail'',
              call_args = Some [''tone_logic'' \<mapsto> Str ''warmer'',
                                ''rewritten_content'' \<mapsto> Str ''Hi Sam, yes!''],
              call_arguments = None,
              call_id = ''toolu_02''\<rparr>]) = Inr \<lparr>call_name = ''ReWriteEmail'',
              call_args = Some [''tone_logic'' \<mapsto> Str ''warmer'',
                                ''rewritten_content'' \<mapsto> Str ''Hi Sam, yes!''],
              call_arguments = None,
              call_id = ''toolu_02''\<rparr>"
    by (simp add: first_tool_call_def)
  have 10: "validate_rewritten [''tone_logic'' \<mapsto> Str ''warmer'',
                                ''rewritten_content'' \<mapsto> Str ''Hi Sam, yes!''] = Inr ''Hi Sam, yes!''"
    by (simp add: validate_rewritten_def)
  show ?thesis
    unfolding rewrite_def 1 sum.case 2 3 4 5 Let_def 6 prod.case 7 option.case 8 rewrite_llm_def 9 
    by (simp add: args_of_def 10 m draft_call_def world0_def invoked_def reply_state_def)
qed


text \<open>A run of \<open>rewrite\<close> on a drafted reply: only \<open>content\<close> changes.\<close>

theorem rewrite_preserves_tool_call_witness:
  "rewrite reply_state assistant_config sample_config Map.empty rewrite_llm validate_rewritten
     world0
   = (Inr (no_update\<lparr>upd_messages := Some
        [AIMessage ''m2'' ''drafting''
           [\<lparr>call_name = ''ResponseEmailDraft'',
             call_args = Some [''content'' \<mapsto> Str ''Hi Sam, yes!'',
                               ''new_recipients'' \<mapsto> StrList []],
             call_arguments = None,
             call_id = ''toolu_01''\<rparr>]]\<rparr>),
      aput Map.empty ''a1'' ''rewrite_instructions'' [''data'' \<mapsto> ''Friendly tone''],
      \<lparr>calls = 1, slept = []\<rparr>)
   \<and> last (messages reply_state)
       = AIMessage ''m2'' ''drafting'' [draft_call ''ResponseEmailDraft'']
   \<and> draft_call ''ResponseEmailDraft''
       = \<lparr>call_name = ''ResponseEmailDraft'',
          call_args = Some [''content'' \<mapsto> Str ''Dear Sam, yes.'',
                            ''new_recipients'' \<mapsto> StrList []],
          call_arguments = None,
          call_id = ''toolu_01''\<rparr>"
proof -
  from rewrite_preserves_tool_call[OF rewrite_run]
  obtain i c tc rest where l: "last (messages reply_state) = AIMessage i c (tc # rest)"
    by blast
  have "last (messages reply_state)
          = AIMessage ''m2'' ''drafting'' [draft_call ''ResponseEmailDraft'']"
    using l by (simp add: reply_state_def)
  then show ?thesis
    using rewrite_run by (simp add: draft_call_def)
qed

section \<open>Protocol violations in the drafting stage\<close>

lemma work_email_not_personal: "\<not> is_personal_email work_email"
  by (simp add: is_personal_email_def work_email_def get_field_def lower_plain lower_char_def
        personal_domains_def personal_indicators_def Let_def)

text \<open>The heuristic on two personal emails; in the second the greeting is found among the
  first ten characters of the body, four of whose first ten bytes belong to an emoji.\<close>

lemma personal_email_personal: "is_personal_email personal_email"
  by (simp add: is_personal_email_def personal_email_def get_field_def lower_plain lower_char_def
        personal_domains_def personal_indicators_def Let_def)

lemma emoji_email_personal: "is_personal_email emoji_email"
  by (simp add: is_personal_email_def emoji_email_def get_field_def lower_plain lower_char_def
        personal_domains_def personal_indicators_def slice_to_def is_continuation_def
        is_space_def Let_def)

text \<open>For an email that is not personal, an answer without tool calls becomes a \<open>ValueError\<close>
  raised inside the operation the retry policy wraps, which its second handler retries.\<close>

lemma violations_retryable:
  assumes "\<not> is_personal_email mail" and "\<forall>n<k. \<exists>i c. llm n = Inr (AIMessage i c [])"
  shows "\<forall>n<k. \<exists>e. invoke_llm_with_retry cfg mail llm (0 + n) = Inl e \<and> draft_retryable e"
proof (intro allI impI)
  fix n assume "n < k"
  with assms(2) obtain i c where "llm n = Inr (AIMessage i c [])" by blast
  with assms(1) show "\<exists>e. invoke_llm_with_retry cfg mail llm (0 + n) = Inl e \<and> draft_retryable e"
    by (simp add: invoke_llm_with_retry_def)
qed

text \<open>For a personal email the same answer makes the wrapped operation build the default
  reply, which raises as well: \<open>KeyError\<close> when the configuration has no name, \<open>TypeError\<close>
  from the message constructor otherwise.\<close>

lemma personal_violation_raises:
  assumes "is_personal_email mail" and "llm n = Inr (AIMessage i c [])"
  shows "\<exists>e. invoke_llm_with_retry cfg mail llm n = Inl e \<and> draft_retryable e"
proof (cases "generate_personal_response cfg mail")
  case (Inl e)
  then have "invoke_llm_with_retry cfg mail llm n = Inl e"
    using assms by (simp add: invoke_llm_with_retry_def)
  moreover from Inl have "draft_retryable e"
    by (auto simp: generate_personal_response_def lookup_def Let_def
             split: if_splits option.splits)
  ultimately show ?thesis by blast
next
  case (Inr content)
  then show ?thesis
    using assms by (simp add: invoke_llm_with_retry_def default_draft_def)
qed

lemma draft_result_violation_then_call:
  assumes "\<not> is_personal_email mail" and "\<forall>n<k. \<exists>i c. llm n = Inr (AIMessage i c [])"
    and "k \<le> 5" and "llm k = Inr (AIMessage i c (tc # tcs))"
  shows "draft_result cfg mail llm world0
         = (Inr (AIMessage i c (tc # tcs)), \<lparr>calls = k + 1, slept = backoff 1 k\<rparr>)"
proof -
  have le: "int k \<le> 5" using assms(3) by simp
  have v: "invoke_llm_with_retry cfg mail llm (0 + k) = Inr (AIMessage i c (tc # tcs))"
    using assms(4) by (simp add: invoke_llm_with_retry_def)
  show ?thesis
    using draft_retry_succeeds[OF violations_retryable[OF assms(1,2)] le v, of 1 "[]"]
    by (simp add: draft_result_def world0_def)
qed

lemma draft_result_violations_exhaust:
  assumes "\<not> is_personal_email mail" and "\<forall>n<k. \<exists>i c. llm n = Inr (AIMessage i c [])"
    and "5 < k"
  shows "draft_result cfg mail llm world0
         = (Inl (ValueError (''Failed to get valid tool call from LLM after retries. Last error: ''
                             @ ''LLM did not return a tool call.'')),
            \<lparr>calls = 6, slept = [1, 2, 4, 8, 16]\<rparr>)"
proof -
  from assms(2,3) have five: "\<forall>n<5. \<exists>i c. llm n = Inr (AIMessage i c [])" by simp
  from assms(2,3) obtain i c where "llm 5 = Inr (AIMessage i c [])" by force
  with assms(1)
  have v: "invoke_llm_with_retry cfg mail llm (0 + 5)
             = Inl (ValueError ''LLM did not return a tool call.'')"
    by (simp add: invoke_llm_with_retry_def)
  have eq: "int 5 = 5" by simp
  show ?thesis
    using draft_retry_exhausted[OF violations_retryable[OF assms(1) five] eq v, of 1 "[]"] assms(1)
    by (simp add: draft_result_def world0_def backoff_5)
qed

text \<open>
  Claim C3, as amended. Let the email not match the personal heuristic and let the model
  answer without any tool call on its first \<open>k\<close> invocations. The retry policy retries these
  protocol violations like any other exception: if invocation \<open>k\<close> brings a tool call and
  \<open>k \<le> 5\<close>, the stage's result is that answer, after \<open>k + 1\<close> invocations and the first \<open>k\<close>
  backoff waits; if \<open>k > 5\<close>, the run fails, after six invocations and the waits 1, 2, 4, 8,
  16, with the \<open>ValueError\<close> of the stage's last handler.
\<close>

theorem protocol_violation_retried:
  assumes viol: "\<forall>n<k. \<exists>i c. llm n = Inr (AIMessage i c [])"
      and other: "\<not> is_personal_email mail"
  shows "(k \<le> 5 \<and> llm k = Inr (AIMessage i c (tc # tcs)) \<longrightarrow>
            draft_result cfg mail llm world0
              = (Inr (AIMessage i c (tc # tcs)), \<lparr>calls = k + 1, slept = backoff 1 k\<rparr>))
       \<and> (5 < k \<longrightarrow>
            draft_result cfg mail llm world0
              = (Inl (ValueError
                       (''Failed to get valid tool call from LLM after retries. Last error: ''
                        @ ''LLM did not return a tool call.'')),
                 \<lparr>calls = 6, slept = [1, 2, 4, 8, 16]\<rparr>))"
proof (intro conjI impI)
  assume "k \<le> 5 \<and> llm k = Inr (AIMessage i c (tc # tcs))"
  then show "draft_result cfg mail llm world0
              = (Inr (AIMessage i c (tc # tcs)), \<lparr>calls = k + 1, slept = backoff 1 k\<rparr>)"
    using draft_result_violation_then_call[OF other viol] by blast
next
  assume "5 < k"
  then show "draft_result cfg mail llm world0
              = (Inl (ValueError
                       (''Failed to get valid tool call from LLM after retries. Last error: ''
                        @ ''LLM did not return a tool call.'')),
                 \<lparr>calls = 6, slept = [1, 2, 4, 8, 16]\<rparr>)"
    using draft_result_violations_exhaust[OF other viol] by blast
qed

lemma silent_violations: "\<forall>n<k. \<exists>i c. silent_then_question k n = Inr (AIMessage i c [])"
  by (simp add: silent_then_question_def)

lemma silent_then_call:
  "silent_then_question k k = Inr (AIMessage [] [] (draft_call ''Question'' # []))"
  by (simp add: silent_then_question_def)

text \<open>The two cases on a concrete email: two violations then a tool call, and seven
  violations.\<close>

theorem protocol_violation_retried_witness:
  "draft_result sample_config work_email (silent_then_question 2) world0
     = (Inr (AIMessage [] [] [draft_call ''Question'']), \<lparr>calls = 3, slept = [1, 2]\<rparr>)
   \<and> draft_result sample_config work_email (silent_then_question 7) world0
     = (Inl (ValueError
              (''Failed to get valid tool call from LLM after retries. Last error: ''
               @ ''LLM did not return a tool call.'')),
        \<lparr>calls = 6, slept = [1, 2, 4, 8, 16]\<rparr>)"
proof -
  have b2: "backoff 1 2 = [1, 2]" by (simp add: backoff_def upt_rec)
  show ?thesis
    using protocol_violation_retried[OF silent_violations[of 2] work_email_not_personal,
            of "[]" "[]" "draft_call ''Question''" "[]" sample_config]
          protocol_violation_retried[OF silent_violations[of 7] work_email_not_personal,
            of "[]" "[]" "draft_call ''Question''" "[]" sample_config]
          silent_then_call[of 2]
    by (simp add: b2)
qed

lemma draft_prelude:
  "get_config_async assistant_config sample_config = sample_config"
  by (simp add: get_config_async_def assistant_config_def)

text \<open>
  Claim C3 as stated fails: on a non-personal email whose first model answer has no tool
  call, \<open>draft_response\<close> neither falls back nor fails at once; the retry policy sleeps one
  second, invokes the model a second time and the stage returns the second answer.
\<close>

theorem protocol_violation_retry_counterexample:
  "silent_then_question 1 0 = Inr (AIMessage [] ''I am not sure what to do.'' [])
   \<and> draft_response \<lparr>email = work_email, messages = [], triage = None\<rparr>
       assistant_config sample_config Map.empty (silent_then_question 1) world0
     = (Inr (no_update\<lparr>upd_draft := Some (AIMessage [] [] [draft_call ''Question'']),
               upd_messages := Some [AIMessage [] [] [draft_call ''Question'']]\<rparr>),
        seeded_store,
        \<lparr>calls = 2, slept = [1]\<rparr>)"
proof -
  have p: "draft_preferences assistant_config sample_config Map.empty
     = (Inr (''Mornings only'', ''Final-year student'', ''Be brief''), seeded_store)"
    by (simp add: draft_preferences_def read_preference_def aget_def aput_def lookup_def
        namespace_of_def assistant_config_def sample_config_def seeded_store_def Let_def)
  have f1: "find (\<lambda>k. sample_config k = None) [''name'', ''full_name'', ''background''] = None"
    by (simp add: sample_config_def)
  have f2: "find (\<lambda>k. work_email k = None) [''page_content'', ''from_email'', ''subject''] = None"
    by (simp add: work_email_def)
  have r: "draft_result sample_config work_email (silent_then_question 1) world0
         = (Inr (AIMessage [] [] [draft_call ''Question'']), \<lparr>calls = 2, slept = [1]\<rparr>)"
    using draft_result_violation_then_call[OF work_email_not_personal silent_violations[of 1] _
            silent_then_call[of 1], of sample_config]
    by (simp add: backoff_def)
  have s0: "silent_then_question 1 0 = Inr (AIMessage [] ''I am not sure what to do.'' [])"
    by (simp add: silent_then_question_def)
  have "draft_response \<lparr>email = work_email, messages = [], triage = None\<rparr>
       assistant_config sample_config Map.empty (silent_then_question 1) world0
     = (Inr (no_update\<lparr>upd_draft := Some (AIMessage [] [] [draft_call ''Question'']),
               upd_messages := Some [AIMessage [] [] [draft_call ''Question'']]\<rparr>),
        seeded_store,
        \<lparr>calls = 2, slept = [1]\<rparr>)"
    unfolding draft_response_def draft_prelude Let_def p prod.case sum.case f1 option.case
      state.simps f2 r
    by (rule refl)
  with s0 show ?thesis by simp
qed

end
